theory Spec2Isabelle
  imports Complex_Main
begin

section \<open>Vector2D (juego/vector2d.py)\<close>

text \<open>
  Python floats are idealised as the reals of HOL: every float operation of the source
  (addition, multiplication, division, \<open>math.sqrt\<close>, comparison) is the exact real one,
  so rounding is outside this development. A \<open>Vector2D\<close> object holds two floats; the
  fields are \<open>x\<close> and \<open>y\<close> in the source and \<open>comp_x\<close>, \<open>comp_y\<close> here.
  The \<open>isinstance\<close> guards of the source are discharged by the types.
\<close>

record Vector2D =
  comp_x :: real
  comp_y :: real

definition Vector2D_init :: "real \<Rightarrow> real \<Rightarrow> Vector2D" where
  "Vector2D_init a b = \<lparr>comp_x = a, comp_y = b\<rparr>"

text \<open>\<open>__add__\<close>, \<open>__sub__\<close> and \<open>__mul__\<close>: each returns a new vector.\<close>

definition vec_add :: "Vector2D \<Rightarrow> Vector2D \<Rightarrow> Vector2D" where
  "vec_add self other = Vector2D_init (comp_x self + comp_x other) (comp_y self + comp_y other)"

definition vec_sub :: "Vector2D \<Rightarrow> Vector2D \<Rightarrow> Vector2D" where
  "vec_sub self other = Vector2D_init (comp_x self - comp_x other) (comp_y self - comp_y other)"

definition vec_mul :: "Vector2D \<Rightarrow> real \<Rightarrow> Vector2D" where
  "vec_mul self scalar = Vector2D_init (comp_x self * scalar) (comp_y self * scalar)"

definition magnitud :: "Vector2D \<Rightarrow> real" where
  "magnitud self = sqrt ((comp_x self)\<^sup>2 + (comp_y self)\<^sup>2)"

definition normalizar :: "Vector2D \<Rightarrow> Vector2D" where
  "normalizar self =
     (let mag = magnitud self
      in if mag > 0 then Vector2D_init (comp_x self / mag) (comp_y self / mag)
         else Vector2D_init 0 0)"

section \<open>Figura (juego/figura.py)\<close>

text \<open>
  The pygame surface is only asked for its width and height, so it is a record of the two.
  Every figure keeps a reference to the surface it is drawn on. A colour is an RGB triple.
\<close>

record Pantalla =
  ancho :: int
  alto :: int

type_synonym rgb = "int \<times> int \<times> int"

record Figura =
  pantalla :: Pantalla
  posicion :: Vector2D
  color :: rgb
  radio :: int
  activo :: bool

definition Figura_init :: "Pantalla \<Rightarrow> real \<Rightarrow> real \<Rightarrow> rgb \<Rightarrow> int \<Rightarrow> Figura" where
  "Figura_init p a b c r =
     \<lparr>pantalla = p, posicion = Vector2D_init a b, color = c, radio = r, activo = True\<rparr>"

text \<open>\<open>Figura.colision\<close>: the subclasses inherit it, hence the record schemes.\<close>

definition colision :: "'a Figura_scheme \<Rightarrow> 'b Figura_scheme \<Rightarrow> bool" where
  "colision self otro =
     (if \<not> (activo self \<and> activo otro) then False
      else
        (let distancia = magnitud (vec_sub (posicion self) (posicion otro))
         in distancia \<le> real_of_int (radio self + radio otro)))"

text \<open>\<open>Figura.mantener_en_pantalla\<close>: four assignments, in the order of the source.\<close>

definition mantener_en_pantalla :: "'a Figura_scheme \<Rightarrow> 'a Figura_scheme" where
  "mantener_en_pantalla self =
     (let ancho_pantalla = ancho (pantalla self);
          alto_pantalla = alto (pantalla self);
          x1 = max (real_of_int (radio self)) (comp_x (posicion self));
          x2 = min (real_of_int (ancho_pantalla - radio self)) x1;
          y1 = max (real_of_int (radio self)) (comp_y (posicion self));
          y2 = min (real_of_int (alto_pantalla - radio self)) y1
      in self\<lparr>posicion := \<lparr>comp_x = x2, comp_y = y2\<rparr>\<rparr>)"

section \<open>Errors and numeric conversion\<close>

text \<open>
  The exceptions the modelled code raises. A function that can raise returns
  \<open>error + 'a\<close>, \<open>Inl\<close> carrying the exception.
\<close>

datatype error = ValueError | TypeError

text \<open>Python's \<open>int(f)\<close> on a float truncates towards zero.\<close>

definition py_int :: "real \<Rightarrow> int" where
  "py_int r = (if 0 \<le> r then \<lfloor>r\<rfloor> else \<lceil>r\<rceil>)"

section \<open>Proyectil (juego/proyectil.py)\<close>

text \<open>The field \<open>velocidad\<close> of a projectile is \<open>velocidad_p\<close> here (the enemy has
  a field of the same name).\<close>

record Proyectil = Figura +
  velocidad_p :: real
  direccion :: Vector2D
  tiempo_vida :: real

definition Proyectil_init ::
    "Pantalla \<Rightarrow> real \<Rightarrow> real \<Rightarrow> Vector2D \<Rightarrow> real \<Rightarrow> error + Proyectil" where
  "Proyectil_init p a b dir vel =
     (if vel \<le> 0 then Inl ValueError
      else Inr \<lparr>pantalla = p, posicion = Vector2D_init a b, color = (255, 255, 0),
                radio = 5, activo = True,
                velocidad_p = vel, direccion = normalizar dir, tiempo_vida = 2\<rparr>)"

definition verificar_desactivacion :: "Proyectil \<Rightarrow> Proyectil" where
  "verificar_desactivacion self =
     (if \<not> activo self then self
      else
        (let ancho_pantalla = ancho (pantalla self);
             alto_pantalla = alto (pantalla self);
             fuera_de_pantalla =
               (comp_x (posicion self) < - real_of_int (radio self)
                \<or> comp_x (posicion self) > real_of_int (ancho_pantalla + radio self)
                \<or> comp_y (posicion self) < - real_of_int (radio self)
                \<or> comp_y (posicion self) > real_of_int (alto_pantalla + radio self));
             tiempo_agotado = (tiempo_vida self \<le> 0)
         in if fuera_de_pantalla \<or> tiempo_agotado then self\<lparr>activo := False\<rparr> else self))"

definition Proyectil_actualizar :: "Proyectil \<Rightarrow> real \<Rightarrow> error + Proyectil" where
  "Proyectil_actualizar self dt =
     (if dt \<le> 0 then Inl ValueError
      else if \<not> activo self then Inr self
      else
        (let movimiento = vec_mul (direccion self) (velocidad_p self * dt);
             s1 = self\<lparr>posicion := vec_add (posicion self) movimiento\<rparr>;
             s2 = s1\<lparr>tiempo_vida := tiempo_vida s1 - dt\<rparr>
         in Inr (verificar_desactivacion s2)))"

section \<open>Jugador (juego/jugador.py)\<close>

record Jugador = Figura +
  velocidad_movimiento :: real
  ultimo_disparo :: real
  cooldown_disparo :: real
  proyectiles :: "Proyectil list"

definition Jugador_init :: "Pantalla \<Rightarrow> real \<Rightarrow> real \<Rightarrow> rgb \<Rightarrow> Jugador" where
  "Jugador_init p a b c =
     \<lparr>pantalla = p, posicion = Vector2D_init a b, color = c, radio = 20, activo = True,
      velocidad_movimiento = 1 / 10, ultimo_disparo = 0, cooldown_disparo = 3 / 10,
      proyectiles = []\<rparr>"

text \<open>\<open>pygame.mouse.get_pos()\<close> is the input of the frame: a pair of integers.\<close>

definition mover_hacia_mouse :: "Jugador \<Rightarrow> int \<times> int \<Rightarrow> Jugador" where
  "mover_hacia_mouse self pos_mouse =
     (let destino = Vector2D_init (real_of_int (fst pos_mouse)) (real_of_int (snd pos_mouse));
          diferencia = vec_sub destino (posicion self)
      in self\<lparr>posicion := vec_add (posicion self) (vec_mul diferencia (velocidad_movimiento self))\<rparr>)"

text \<open>
  The loop of \<open>_actualizar_proyectiles\<close> runs over a copy of the list, updates each
  projectile in place and removes it from the list when it is inactive afterwards.
\<close>

fun actualizar_proyectiles_bucle :: "Proyectil list \<Rightarrow> real \<Rightarrow> error + Proyectil list" where
  "actualizar_proyectiles_bucle [] dt = Inr []"
| "actualizar_proyectiles_bucle (proyectil # resto) dt =
     (case Proyectil_actualizar proyectil dt of
        Inl e \<Rightarrow> Inl e
      | Inr proyectil' \<Rightarrow>
          (case actualizar_proyectiles_bucle resto dt of
             Inl e \<Rightarrow> Inl e
           | Inr resto' \<Rightarrow>
               Inr (if \<not> activo proyectil' then resto' else proyectil' # resto')))"

definition actualizar_proyectiles :: "Jugador \<Rightarrow> real \<Rightarrow> error + Jugador" where
  "actualizar_proyectiles self dt =
     (case actualizar_proyectiles_bucle (proyectiles self) dt of
        Inl e \<Rightarrow> Inl e
      | Inr ps \<Rightarrow> Inr (self\<lparr>proyectiles := ps\<rparr>))"

definition Jugador_actualizar :: "Jugador \<Rightarrow> real \<Rightarrow> int \<times> int \<Rightarrow> error + Jugador" where
  "Jugador_actualizar self dt pos_mouse =
     (if dt \<le> 0 then Inl ValueError
      else if \<not> activo self then Inr self
      else
        (let s1 = mover_hacia_mouse self pos_mouse;
             s2 = mantener_en_pantalla s1;
             s3 = s2\<lparr>ultimo_disparo := ultimo_disparo s2 + dt\<rparr>
         in actualizar_proyectiles s3 dt))"

text \<open>
  \<open>disparar\<close> returns the boolean of the source together with the player after the
  call. Its argument is a pair, so the guard on the tuple's length is discharged by the
  type. The projectile is built with the default speed 300.
\<close>

definition disparar :: "Jugador \<Rightarrow> real \<times> real \<Rightarrow> error + (bool \<times> Jugador)" where
  "disparar self objetivo_pos =
     (if ultimo_disparo self < cooldown_disparo self then Inr (False, self)
      else
        (let dir = Vector2D_init (fst objetivo_pos - comp_x (posicion self))
                                 (snd objetivo_pos - comp_y (posicion self))
         in case Proyectil_init (pantalla self) (comp_x (posicion self))
                   (comp_y (posicion self)) dir 300 of
              Inl e \<Rightarrow> Inl e
            | Inr proyectil \<Rightarrow>
                Inr (True, self\<lparr>proyectiles := proyectiles self @ [proyectil],
                                 ultimo_disparo := 0\<rparr>)))"

section \<open>Enemigo (juego/enemigo.py)\<close>

text \<open>
  \<open>objetivo\<close> is \<open>None\<close> or a reference to the player. A session has one player
  object, so the reference is a tag and the function that follows it
  (\<open>_perseguir_objetivo\<close>) receives the player it points to. The pygame rectangle
  \<open>rect\<close> and the method \<open>update\<close> that moves it are never used by the controller and
  are left out.
\<close>

datatype objetivo_ref = Sin_objetivo | Ref_jugador

record Enemigo = Figura +
  velocidad :: real
  objetivo :: objetivo_ref
  vida :: int
  vida_maxima :: int
  tiempo_invulnerable :: real
  color_original :: rgb

definition Enemigo_init :: "Pantalla \<Rightarrow> real \<Rightarrow> real \<Rightarrow> rgb \<Rightarrow> int \<Rightarrow> error + Enemigo" where
  "Enemigo_init p a b c r =
     (if r \<le> 0 then Inl ValueError
      else Inr \<lparr>pantalla = p, posicion = Vector2D_init a b, color = c, radio = r,
                activo = True,
                velocidad = 100, objetivo = Sin_objetivo, vida = 3, vida_maxima = 3,
                tiempo_invulnerable = 0, color_original = c\<rparr>)"

text \<open>\<open>establecer_objetivo\<close> raises TypeError on an argument without \<open>posicion\<close> and
  \<open>activo\<close>, which \<open>None\<close> is.\<close>

definition establecer_objetivo :: "Enemigo \<Rightarrow> objetivo_ref \<Rightarrow> error + Enemigo" where
  "establecer_objetivo self ref =
     (case ref of
        Sin_objetivo \<Rightarrow> Inl TypeError
      | Ref_jugador \<Rightarrow> Inr (self\<lparr>objetivo := Ref_jugador\<rparr>))"

definition actualizar_invulnerabilidad :: "Enemigo \<Rightarrow> real \<Rightarrow> Enemigo" where
  "actualizar_invulnerabilidad self dt =
     (if tiempo_invulnerable self > 0 then
        (let s1 = self\<lparr>tiempo_invulnerable := tiempo_invulnerable self - dt\<rparr>
         in if py_int (tiempo_invulnerable s1 * 10) mod 2 = 0 then
              s1\<lparr>color := (min 255 (fst (color_original s1) + 100),
                            min 255 (fst (snd (color_original s1)) + 100),
                            min 255 (snd (snd (color_original s1)) + 100))\<rparr>
            else s1\<lparr>color := color_original s1\<rparr>)
      else
        self\<lparr>color := (max 0 (fst (color_original self) - ((3 - vida self) * 75)),
                        max 0 (fst (snd (color_original self)) - ((3 - vida self) * 75)),
                        max 0 (snd (snd (color_original self)) - ((3 - vida self) * 75)))\<rparr>)"

definition perseguir_objetivo :: "Enemigo \<Rightarrow> real \<Rightarrow> Jugador \<Rightarrow> Enemigo" where
  "perseguir_objetivo self dt jug =
     (if objetivo self = Ref_jugador \<and> activo jug then
        (let dir = vec_sub (posicion jug) (posicion self);
             magn = magnitud dir
         in if magn > 0 then
              (let direccion_normalizada = normalizar dir;
                   movimiento = vec_mul direccion_normalizada (velocidad self * dt)
               in self\<lparr>posicion := vec_add (posicion self) movimiento\<rparr>)
            else self)
      else self)"

definition Enemigo_actualizar :: "Enemigo \<Rightarrow> real \<Rightarrow> Jugador \<Rightarrow> error + Enemigo" where
  "Enemigo_actualizar self dt jug =
     (if dt \<le> 0 then Inl ValueError
      else if \<not> activo self then Inr self
      else
        (let s1 = actualizar_invulnerabilidad self dt;
             s2 = perseguir_objetivo s1 dt jug
         in Inr (mantener_en_pantalla s2)))"

text \<open>\<open>recibir_dano\<close> returns its boolean and the enemy after the call.\<close>

definition recibir_dano :: "Enemigo \<Rightarrow> bool \<times> Enemigo" where
  "recibir_dano self =
     (if tiempo_invulnerable self \<le> 0 then
        (let s1 = self\<lparr>vida := vida self - 1\<rparr>;
             s2 = s1\<lparr>tiempo_invulnerable := 1 / 2\<rparr>;
             s3 = (if vida s2 \<le> 0 then s2\<lparr>activo := False, vida := 0\<rparr> else s2)
         in (True, s3))
      else (False, self))"

section \<open>ControlJuego (juego/control_juego.py)\<close>

text \<open>
  The controller holds the list \<open>enemigos\<close> and the attribute \<open>enemigo\<close>, which
  refers to one of the enemy objects (the one spawned last). Both name the same mutable
  objects, so the enemies live in a store \<open>memoria\<close> from addresses to enemies;
  \<open>enemigos\<close> is a list of addresses, \<open>enemigo\<close> one address and \<open>siguiente\<close> the
  next unused address. The projectiles are reached only through the player's list and are
  kept there by value. The rendering attributes (fonts, clock) are left out.
\<close>

record ControlJuego =
  pantalla_juego :: Pantalla
  puntos :: int
  jugador :: Jugador
  memoria :: "nat \<Rightarrow> Enemigo"
  siguiente :: nat
  enemigos :: "nat list"
  enemigo :: nat
  tiempo_enemigo :: real
  intervalo_enemigo :: real
  jugando :: bool
  tiempo_desde_ultimo_dano :: real
  cooldown_dano :: real

text \<open>
  \<open>__init__\<close> followed by \<open>inicializar_juego\<close>, which it calls last. The first
  enemy is at address 0; what the store holds at an unused address is never read through
  \<open>enemigos\<close> or \<open>enemigo\<close>.
\<close>

definition ControlJuego_init :: "Pantalla \<Rightarrow> error + ControlJuego" where
  "ControlJuego_init p =
     (let width = ancho p;
          height = alto p;
          jug = Jugador_init p (real_of_int (width div 4)) (real_of_int (height div 2))
                  (0, 255, 0)
      in case Enemigo_init p (real_of_int (width div 2)) (real_of_int (height div 4))
                (255, 0, 0) 20 of
           Inl e \<Rightarrow> Inl e
         | Inr en \<Rightarrow>
             (case establecer_objetivo en Ref_jugador of
                Inl e \<Rightarrow> Inl e
              | Inr enemigo_inicial \<Rightarrow>
                  Inr \<lparr>pantalla_juego = p, puntos = 10, jugador = jug,
                       memoria = (\<lambda>_. enemigo_inicial), siguiente = 1,
                       enemigos = [0], enemigo = 0,
                       tiempo_enemigo = 0, intervalo_enemigo = 5, jugando = True,
                       tiempo_desde_ultimo_dano = 0, cooldown_dano = 1\<rparr>))"

text \<open>
  The draws of \<open>random.randint\<close> and \<open>random.choice\<close> for one new enemy.
  \<open>random.randint(50, n - 50)\<close> raises ValueError on an empty range.
\<close>

record Sorteo =
  sorteo_x :: int
  sorteo_y :: int
  sorteo_radio :: int

definition respawnear_enemigo :: "ControlJuego \<Rightarrow> Sorteo \<Rightarrow> error + ControlJuego" where
  "respawnear_enemigo self az =
     (let width = ancho (pantalla_juego self);
          height = alto (pantalla_juego self)
      in if width - 50 < 50 \<or> height - 50 < 50 then Inl ValueError
         else
           (case Enemigo_init (pantalla_juego self) (real_of_int (sorteo_x az))
                   (real_of_int (sorteo_y az)) (255, 0, 0) (sorteo_radio az) of
              Inl e \<Rightarrow> Inl e
            | Inr en \<Rightarrow>
                (case establecer_objetivo en Ref_jugador of
                   Inl e \<Rightarrow> Inl e
                 | Inr nuevo \<Rightarrow>
                     Inr (self\<lparr>enemigo := siguiente self,
                               memoria := (memoria self)(siguiente self := nuevo),
                               siguiente := Suc (siguiente self),
                               enemigos := enemigos self @ [siguiente self]\<rparr>))))"

text \<open>Step 2 of \<open>actualizar\<close>: every active enemy of the list is updated.\<close>

fun actualizar_enemigos :: "ControlJuego \<Rightarrow> real \<Rightarrow> nat list \<Rightarrow> error + ControlJuego" where
  "actualizar_enemigos self dt [] = Inr self"
| "actualizar_enemigos self dt (r # rs) =
     (if activo (memoria self r) then
        (case Enemigo_actualizar (memoria self r) dt (jugador self) of
           Inl e \<Rightarrow> Inl e
         | Inr en \<Rightarrow> actualizar_enemigos (self\<lparr>memoria := (memoria self)(r := en)\<rparr>) dt rs)
      else actualizar_enemigos self dt rs)"

text \<open>\<open>if enemigo.recibir_dano(): self.puntos += 2\<close>, for the enemy at an address.\<close>

definition golpear :: "ControlJuego \<Rightarrow> nat \<Rightarrow> ControlJuego" where
  "golpear self r =
     (case recibir_dano (memoria self r) of
        (golpe, en) \<Rightarrow>
          (let s1 = self\<lparr>memoria := (memoria self)(r := en)\<rparr>
           in if golpe then s1\<lparr>puntos := puntos s1 + 2\<rparr> else s1))"

text \<open>
  A loop \<open>for proyectil in self.jugador.proyectiles[:]\<close>: the body changes the
  controller and the projectile it holds; the list keeps its order and its length.
\<close>

fun bucle_proyectiles ::
    "(ControlJuego \<Rightarrow> Proyectil \<Rightarrow> ControlJuego \<times> Proyectil) \<Rightarrow> ControlJuego \<Rightarrow> Proyectil list
      \<Rightarrow> ControlJuego \<times> Proyectil list" where
  "bucle_proyectiles cuerpo self [] = (self, [])"
| "bucle_proyectiles cuerpo self (proyectil # resto) =
     (case cuerpo self proyectil of
        (s1, proyectil') \<Rightarrow>
          (case bucle_proyectiles cuerpo s1 resto of
             (s2, resto') \<Rightarrow> (s2, proyectil' # resto')))"

text \<open>The body of the loop of \<open>_verificar_colisiones_proyectiles\<close>.\<close>

definition cuerpo_enemigo_principal :: "ControlJuego \<Rightarrow> Proyectil \<Rightarrow> ControlJuego \<times> Proyectil" where
  "cuerpo_enemigo_principal self proyectil =
     (if colision proyectil (memoria self (enemigo self)) then
        (golpear self (enemigo self), proyectil\<lparr>activo := False\<rparr>)
      else (self, proyectil))"

definition verificar_colisiones_proyectiles :: "ControlJuego \<Rightarrow> ControlJuego" where
  "verificar_colisiones_proyectiles self =
     (case bucle_proyectiles cuerpo_enemigo_principal self (proyectiles (jugador self)) of
        (s1, ps) \<Rightarrow> s1\<lparr>jugador := (jugador s1)\<lparr>proyectiles := ps\<rparr>\<rparr>)"

text \<open>
  The inner loop \<open>for enemigo in self.enemigos\<close> of step 3. The assignment
  \<open>proyectil.activo = False\<close> stands at the level of the \<open>if\<close>, inside the loop over
  the enemies: it runs once for every enemy, collision or not.
\<close>

fun bucle_enemigos_proyectil ::
    "ControlJuego \<Rightarrow> Proyectil \<Rightarrow> nat list \<Rightarrow> ControlJuego \<times> Proyectil" where
  "bucle_enemigos_proyectil self proyectil [] = (self, proyectil)"
| "bucle_enemigos_proyectil self proyectil (r # rs) =
     (let s1 = (if colision proyectil (memoria self r) then golpear self r else self)
      in bucle_enemigos_proyectil s1 (proyectil\<lparr>activo := False\<rparr>) rs)"

definition cuerpo_todos_los_enemigos :: "ControlJuego \<Rightarrow> Proyectil \<Rightarrow> ControlJuego \<times> Proyectil" where
  "cuerpo_todos_los_enemigos self proyectil =
     bucle_enemigos_proyectil self proyectil (enemigos self)"

text \<open>Step 3: the helper on the tracked enemy, then the loop over all enemies.\<close>

definition colisiones_proyectiles :: "ControlJuego \<Rightarrow> ControlJuego" where
  "colisiones_proyectiles self =
     (let s1 = verificar_colisiones_proyectiles self
      in case bucle_proyectiles cuerpo_todos_los_enemigos s1 (proyectiles (jugador s1)) of
           (s2, ps) \<Rightarrow> s2\<lparr>jugador := (jugador s2)\<lparr>proyectiles := ps\<rparr>\<rparr>)"

text \<open>Step 4: the helper on the tracked enemy, then the loop over all enemies.\<close>

definition verificar_colision_jugador_enemigo :: "ControlJuego \<Rightarrow> ControlJuego" where
  "verificar_colision_jugador_enemigo self =
     (if colision (jugador self) (memoria self (enemigo self))
         \<and> tiempo_desde_ultimo_dano self \<ge> cooldown_dano self then
        self\<lparr>puntos := puntos self - 2, tiempo_desde_ultimo_dano := 0\<rparr>
      else self)"

fun bucle_jugador_enemigos :: "ControlJuego \<Rightarrow> nat list \<Rightarrow> ControlJuego" where
  "bucle_jugador_enemigos self [] = self"
| "bucle_jugador_enemigos self (r # rs) =
     bucle_jugador_enemigos
       (if colision (jugador self) (memoria self r)
           \<and> tiempo_desde_ultimo_dano self \<ge> cooldown_dano self then
          self\<lparr>puntos := puntos self - 2, tiempo_desde_ultimo_dano := 0\<rparr>
        else self) rs"

definition colisiones_jugador :: "ControlJuego \<Rightarrow> ControlJuego" where
  "colisiones_jugador self =
     (let s1 = verificar_colision_jugador_enemigo self
      in bucle_jugador_enemigos s1 (enemigos s1))"

text \<open>Steps 5 and 6, the removal of the inactive enemies and the timed spawn.\<close>

definition respawn_si_destruido :: "ControlJuego \<Rightarrow> Sorteo \<Rightarrow> error + ControlJuego" where
  "respawn_si_destruido self az =
     (if \<not> activo (memoria self (enemigo self)) then respawnear_enemigo self az
      else Inr self)"

definition verificar_fin_del_juego :: "ControlJuego \<Rightarrow> ControlJuego" where
  "verificar_fin_del_juego self =
     (if puntos self \<le> 0 then self\<lparr>jugando := False, puntos := 0\<rparr> else self)"

definition eliminar_inactivos :: "ControlJuego \<Rightarrow> ControlJuego" where
  "eliminar_inactivos self =
     self\<lparr>enemigos := filter (\<lambda>r. activo (memoria self r)) (enemigos self)\<rparr>"

definition enemigo_por_tiempo :: "ControlJuego \<Rightarrow> real \<Rightarrow> Sorteo \<Rightarrow> error + ControlJuego" where
  "enemigo_por_tiempo self dt az =
     (let s1 = self\<lparr>tiempo_enemigo := tiempo_enemigo self + dt\<rparr>
      in if tiempo_enemigo s1 \<ge> intervalo_enemigo s1 then
           (case respawnear_enemigo s1 az of
              Inl e \<Rightarrow> Inl e
            | Inr s2 \<Rightarrow> Inr (s2\<lparr>tiempo_enemigo := 0\<rparr>))
         else Inr s1)"

text \<open>
  \<open>ControlJuego.actualizar\<close>. The two draws are those of the respawn of step 5 and of
  the timed spawn, when they happen. The method does not call \<open>Jugador.actualizar\<close> and
  does not read the mouse. An exception ends the frame: the result is the exception, and
  the half-updated objects it leaves behind are not part of it.
\<close>

definition ControlJuego_actualizar ::
    "ControlJuego \<Rightarrow> real \<Rightarrow> Sorteo \<Rightarrow> Sorteo \<Rightarrow> error + ControlJuego" where
  "ControlJuego_actualizar self dt az1 az2 =
     (if dt \<le> 0 then Inl ValueError
      else if \<not> jugando self then Inr self
      else
        (let s1 = self\<lparr>tiempo_desde_ultimo_dano := tiempo_desde_ultimo_dano self + dt\<rparr>
         in case actualizar_enemigos s1 dt (enemigos s1) of
              Inl e \<Rightarrow> Inl e
            | Inr s2 \<Rightarrow>
                (let s3 = colisiones_proyectiles s2;
                     s4 = colisiones_jugador s3
                 in case respawn_si_destruido s4 az1 of
                      Inl e \<Rightarrow> Inl e
                    | Inr s5 \<Rightarrow>
                        (let s6 = verificar_fin_del_juego s5;
                             s7 = eliminar_inactivos s6
                         in enemigo_por_tiempo s7 dt az2))))"

section \<open>Sequences of calls and example objects\<close>

text \<open>
  The range of the hit points of an enemy: between 0 and the maximum, and an enemy with
  no hit points left is inactive.
\<close>

definition vida_valida :: "Enemigo \<Rightarrow> bool" where
  "vida_valida e = (0 \<le> vida e \<and> vida e \<le> vida_maxima e \<and> (vida e = 0 \<longrightarrow> \<not> activo e))"

text \<open>
  A caller's sequence of calls on one enemy. A call of \<open>actualizar\<close> that raises has
  changed nothing (the check of \<open>dt\<close> comes first), and the sequence goes on.
\<close>

datatype llamada_enemigo = Llamar_recibir_dano | Llamar_actualizar real Jugador

fun aplicar_llamada :: "Enemigo \<Rightarrow> llamada_enemigo \<Rightarrow> Enemigo" where
  "aplicar_llamada e Llamar_recibir_dano = snd (recibir_dano e)"
| "aplicar_llamada e (Llamar_actualizar dt jug) =
     (case Enemigo_actualizar e dt jug of Inl _ \<Rightarrow> e | Inr e' \<Rightarrow> e')"

definition aplicar_llamadas :: "Enemigo \<Rightarrow> llamada_enemigo list \<Rightarrow> Enemigo" where
  "aplicar_llamadas e cs = foldl aplicar_llamada e cs"

text \<open>
  A caller's sequence of calls on the player, and the update time it accumulates: the sum
  of the \<open>dt\<close> of the calls of \<open>actualizar\<close> that do not raise.
\<close>

datatype llamada_jugador =
  Llamar_actualizar_jugador real "int \<times> int" | Llamar_disparar "real \<times> real"

fun aplicar_llamada_jugador :: "Jugador \<Rightarrow> llamada_jugador \<Rightarrow> Jugador" where
  "aplicar_llamada_jugador j (Llamar_actualizar_jugador dt pos_mouse) =
     (case Jugador_actualizar j dt pos_mouse of Inl _ \<Rightarrow> j | Inr j' \<Rightarrow> j')"
| "aplicar_llamada_jugador j (Llamar_disparar objetivo_pos) =
     (case disparar j objetivo_pos of Inl _ \<Rightarrow> j | Inr (_, j') \<Rightarrow> j')"

definition aplicar_llamadas_jugador :: "Jugador \<Rightarrow> llamada_jugador list \<Rightarrow> Jugador" where
  "aplicar_llamadas_jugador j cs = foldl aplicar_llamada_jugador j cs"

fun tiempo_acumulado :: "llamada_jugador list \<Rightarrow> real" where
  "tiempo_acumulado [] = 0"
| "tiempo_acumulado (Llamar_actualizar_jugador dt _ # cs) =
     (if dt \<le> 0 then tiempo_acumulado cs else dt + tiempo_acumulado cs)"
| "tiempo_acumulado (Llamar_disparar _ # cs) = tiempo_acumulado cs"

text \<open>
  The objects of a new session on the 800 by 600 window of \<open>main.py\<close>: the player at
  (200, 300) and the first enemy at (400, 150), aimed at the player.
\<close>

definition pantalla_ejemplo :: Pantalla where
  "pantalla_ejemplo = \<lparr>ancho = 800, alto = 600\<rparr>"

definition jugador_ejemplo :: Jugador where
  "jugador_ejemplo = Jugador_init pantalla_ejemplo 200 300 (0, 255, 0)"

definition enemigo_ejemplo :: Enemigo where
  "enemigo_ejemplo =
     \<lparr>pantalla = pantalla_ejemplo, posicion = Vector2D_init 400 150, color = (255, 0, 0),
      radio = 20, activo = True,
      velocidad = 100, objetivo = Ref_jugador, vida = 3, vida_maxima = 3,
      tiempo_invulnerable = 0, color_original = (255, 0, 0)\<rparr>"

definition sorteo_ejemplo :: Sorteo where
  "sorteo_ejemplo = \<lparr>sorteo_x = 100, sorteo_y = 100, sorteo_radio = 10\<rparr>"

text \<open>
  The new session on that window, a session in which two enemies have reached the
  player after a second without damage, and a session whose player has one projectile
  in flight (fired at (200, 400) after half a second of update time).
\<close>

definition sesion_ejemplo :: ControlJuego where
  "sesion_ejemplo =
     \<lparr>pantalla_juego = pantalla_ejemplo, puntos = 10, jugador = jugador_ejemplo,
      memoria = (\<lambda>_. enemigo_ejemplo), siguiente = 1,
      enemigos = [0], enemigo = 0,
      tiempo_enemigo = 0, intervalo_enemigo = 5, jugando = True,
      tiempo_desde_ultimo_dano = 0, cooldown_dano = 1\<rparr>"

definition sesion_contacto :: ControlJuego where
  "sesion_contacto =
     sesion_ejemplo\<lparr>memoria := (\<lambda>_. enemigo_ejemplo\<lparr>posicion := Vector2D_init 200 300\<rparr>),
                    siguiente := 2, enemigos := [0, 1], enemigo := 1,
                    tiempo_desde_ultimo_dano := 1\<rparr>"

definition proyectil_ejemplo :: Proyectil where
  "proyectil_ejemplo =
     \<lparr>pantalla = pantalla_ejemplo, posicion = Vector2D_init 200 300, color = (255, 255, 0),
      radio = 5, activo = True,
      velocidad_p = 300, direccion = Vector2D_init 0 1, tiempo_vida = 2\<rparr>"

definition sesion_con_proyectil :: ControlJuego where
  "sesion_con_proyectil =
     sesion_ejemplo\<lparr>jugador := jugador_ejemplo\<lparr>proyectiles := [proyectil_ejemplo]\<rparr>\<rparr>"

text \<open>
  What a collision pass may change: a projectile is left as it is or deactivated, and in
  the controller the store of the enemies and the score, which does not go down.
\<close>

definition desactivado_o_igual :: "Proyectil \<Rightarrow> Proyectil \<Rightarrow> bool" where
  "desactivado_o_igual p p' = (p' = p \<or> p' = p\<lparr>activo := False\<rparr>)"

definition cambia_memoria_puntos :: "ControlJuego \<Rightarrow> ControlJuego \<Rightarrow> bool" where
  "cambia_memoria_puntos s s' =
     (\<exists>m k. s' = s\<lparr>memoria := m, puntos := k\<rparr> \<and> puntos s \<le> k)"

definition cambia_colisiones :: "ControlJuego \<Rightarrow> ControlJuego \<Rightarrow> bool" where
  "cambia_colisiones s s' =
     (\<exists>m k ps. s' = s\<lparr>memoria := m, puntos := k,
                           jugador := (jugador s)\<lparr>proyectiles := ps\<rparr>\<rparr>
        \<and> puntos s \<le> k
        \<and> list_all2 desactivado_o_igual (proyectiles (jugador s)) ps)"

text \<open>The contact damage, as both passes of step 4 apply it.\<close>

definition dano_contacto :: "ControlJuego \<Rightarrow> ControlJuego" where
  "dano_contacto self = self\<lparr>puntos := puntos self - 2, tiempo_desde_ultimo_dano := 0\<rparr>"

section \<open>Properties of the collision test\<close>

lemma magnitud_vec_sub_sym: "magnitud (vec_sub a b) = magnitud (vec_sub b a)"
  by (simp add: magnitud_def vec_sub_def Vector2D_init_def power2_commute)

lemma magnitud_eqI:
  assumes "0 \<le> m" and "(comp_x v)\<^sup>2 + (comp_y v)\<^sup>2 = m\<^sup>2"
  shows "magnitud v = m"
  using assms by (simp add: magnitud_def)

text \<open>
  C8. The collision test is symmetric; it holds exactly when both figures are active and
  the distance of the centres is at most the sum of the radii; two circles of radius 20
  collide at distance exactly 40 and do not at distance 40.01; an inactive figure
  collides with nothing, itself included.
\<close>

theorem colision_simetrica_inclusiva:
  "colision a b = colision b a
   \<and> colision a b = (activo a \<and> activo b
        \<and> magnitud (vec_sub (posicion a) (posicion b)) \<le> real_of_int (radio a + radio b))
   \<and> colision (Figura_init p 0 0 c 20) (Figura_init p 40 0 c 20)
   \<and> colision (Figura_init p 0 0 c 20) (Figura_init p (4001 / 100) 0 c 20) = False
   \<and> colision (a\<lparr>activo := False\<rparr>) b = False
   \<and> colision b (a\<lparr>activo := False\<rparr>) = False
   \<and> colision (a\<lparr>activo := False\<rparr>) (a\<lparr>activo := False\<rparr>) = False"
proof -
  have sym: "colision a b = colision b a"
    by (simp add: colision_def magnitud_vec_sub_sym conj_commute add.commute)
  have iff: "colision a b = (activo a \<and> activo b
        \<and> magnitud (vec_sub (posicion a) (posicion b)) \<le> real_of_int (radio a + radio b))"
    by (auto simp add: colision_def Let_def)
  have m40: "magnitud (vec_sub (Vector2D_init 0 0) (Vector2D_init 40 0)) = 40"
    by (rule magnitud_eqI) (simp_all add: vec_sub_def Vector2D_init_def)
  have m4001: "magnitud (vec_sub (Vector2D_init 0 0) (Vector2D_init (4001 / 100) 0)) = 4001 / 100"
    by (rule magnitud_eqI) (simp_all add: vec_sub_def Vector2D_init_def)
  have touch: "colision (Figura_init p 0 0 c 20) (Figura_init p 40 0 c 20)"
    by (simp add: colision_def Figura_init_def m40)
  have apart: "colision (Figura_init p 0 0 c 20) (Figura_init p (4001 / 100) 0 c 20) = False"
    by (simp add: colision_def Figura_init_def m4001)
  have off: "colision (a\<lparr>activo := False\<rparr>) b = False"
    "colision b (a\<lparr>activo := False\<rparr>) = False"
    "colision (a\<lparr>activo := False\<rparr>) (a\<lparr>activo := False\<rparr>) = False"
    by (simp_all add: colision_def)
  from sym iff touch apart off show ?thesis by blast
qed

section \<open>Vectors and projectiles: helper lemmas\<close>

lemma magnitud_nonneg: "0 \<le> magnitud v"
  by (simp add: magnitud_def)

lemma magnitud_normalizar:
  assumes "0 < magnitud v"
  shows "magnitud (normalizar v) = 1"
proof -
  let ?m = "magnitud v"
  have m2: "?m\<^sup>2 = (comp_x v)\<^sup>2 + (comp_y v)\<^sup>2"
    by (simp add: magnitud_def)
  have "(comp_x v / ?m)\<^sup>2 + (comp_y v / ?m)\<^sup>2 = ((comp_x v)\<^sup>2 + (comp_y v)\<^sup>2) / ?m\<^sup>2"
    by (simp add: power_divide add_divide_distrib)
  also have "\<dots> = ?m\<^sup>2 / ?m\<^sup>2" by (simp only: m2)
  also have "\<dots> = 1" using assms by simp
  finally have "(comp_x v / ?m)\<^sup>2 + (comp_y v / ?m)\<^sup>2 = 1" .
  then show ?thesis
    using assms by (simp add: normalizar_def Let_def magnitud_def Vector2D_init_def)
qed

lemma normalizar_nulo:
  assumes "magnitud v = 0"
  shows "normalizar v = Vector2D_init 0 0"
  using assms by (simp add: normalizar_def)

lemma magnitud_cero_iff: "magnitud v = 0 \<longleftrightarrow> comp_x v = 0 \<and> comp_y v = 0"
  by (simp add: magnitud_def sum_power2_eq_zero_iff)

lemma magnitud_de_normalizar:
  "magnitud (normalizar v) = (if 0 < magnitud v then 1 else 0)"
proof (cases "0 < magnitud v")
  case True
  then show ?thesis by (simp add: magnitud_normalizar)
next
  case False
  then have "normalizar v = Vector2D_init 0 0" by (simp add: normalizar_def)
  with False show ?thesis by (simp add: magnitud_def Vector2D_init_def)
qed

lemma magnitud_vec_sub_cero:
  "(0 < magnitud (vec_sub (Vector2D_init a b) v)) = (Vector2D_init a b \<noteq> v)"
proof -
  have "(magnitud (vec_sub (Vector2D_init a b) v) = 0) = (Vector2D_init a b = v)"
    by (cases v) (auto simp add: magnitud_cero_iff vec_sub_def Vector2D_init_def)
  with magnitud_nonneg [of "vec_sub (Vector2D_init a b) v"] show ?thesis by linarith
qed

lemma normalizar_escala: "vec_mul (normalizar v) (magnitud v) = v"
proof (cases "0 < magnitud v")
  case True
  then have "comp_x v / magnitud v * magnitud v = comp_x v"
    and "comp_y v / magnitud v * magnitud v = comp_y v" by simp_all
  with True show ?thesis
    by (simp add: normalizar_def Let_def vec_mul_def Vector2D_init_def)
next
  case False
  with magnitud_nonneg [of v] have z: "magnitud v = 0" by simp
  then have "comp_x v = 0" "comp_y v = 0" by (simp_all add: magnitud_cero_iff)
  with z show ?thesis
    by (simp add: normalizar_def Let_def vec_mul_def Vector2D_init_def)
qed

lemma magnitud_100: "magnitud \<lparr>comp_x = 0, comp_y = 100\<rparr> = 100"
  by (rule magnitud_eqI) simp_all

lemma normalizar_0_100: "normalizar \<lparr>comp_x = 0, comp_y = 100\<rparr> = \<lparr>comp_x = 0, comp_y = 1\<rparr>"
  by (simp add: normalizar_def Let_def magnitud_100 Vector2D_init_def)


lemma actualizar_invulnerabilidad_tiempo:
  "tiempo_invulnerable (actualizar_invulnerabilidad e dt) =
     (if 0 < tiempo_invulnerable e then tiempo_invulnerable e - dt else tiempo_invulnerable e)"
  by (simp add: actualizar_invulnerabilidad_def Let_def)

lemma perseguir_objetivo_tiempo:
  "tiempo_invulnerable (perseguir_objetivo e dt jug) = tiempo_invulnerable e"
  by (simp add: perseguir_objetivo_def Let_def)

lemma mantener_en_pantalla_tiempo:
  "tiempo_invulnerable (mantener_en_pantalla e) = tiempo_invulnerable e"
  by (simp add: mantener_en_pantalla_def Let_def)

lemma Enemigo_actualizar_eq:
  "0 < dt \<Longrightarrow> Enemigo_actualizar e dt jug =
     Inr (if activo e then mantener_en_pantalla
            (perseguir_objetivo (actualizar_invulnerabilidad e dt) dt jug) else e)"
  by (simp add: Enemigo_actualizar_def Let_def)

section \<open>Enemy damage and invulnerability\<close>

lemma recibir_dano_invulnerable:
  "tiempo_invulnerable e > 0 \<Longrightarrow> recibir_dano e = (False, e)"
  by (simp add: recibir_dano_def)

lemma recibir_dano_vulnerable:
  "tiempo_invulnerable e \<le> 0 \<Longrightarrow>
     recibir_dano e = (True, e\<lparr>activo := activo e \<and> 1 < vida e, vida := max 0 (vida e - 1),
                               tiempo_invulnerable := 1 / 2\<rparr>)"
  by (cases "1 < vida e") (simp_all add: recibir_dano_def Let_def max_def)

lemma vida_valida_recibir_dano: "vida_valida e \<Longrightarrow> vida_valida (snd (recibir_dano e))"
  by (cases "tiempo_invulnerable e > 0")
     (auto simp add: recibir_dano_invulnerable recibir_dano_vulnerable vida_valida_def)

lemma actualizar_invulnerabilidad_vida:
  "vida (actualizar_invulnerabilidad e dt) = vida e
   \<and> vida_maxima (actualizar_invulnerabilidad e dt) = vida_maxima e
   \<and> activo (actualizar_invulnerabilidad e dt) = activo e"
  by (simp add: actualizar_invulnerabilidad_def Let_def)

lemma perseguir_objetivo_vida:
  "vida (perseguir_objetivo e dt jug) = vida e
   \<and> vida_maxima (perseguir_objetivo e dt jug) = vida_maxima e
   \<and> activo (perseguir_objetivo e dt jug) = activo e"
  by (simp add: perseguir_objetivo_def Let_def)

lemma mantener_en_pantalla_vida:
  "vida (mantener_en_pantalla e) = vida e
   \<and> vida_maxima (mantener_en_pantalla e) = vida_maxima e
   \<and> activo (mantener_en_pantalla e) = activo e"
  by (simp add: mantener_en_pantalla_def Let_def)

lemma Enemigo_actualizar_vida:
  assumes "Enemigo_actualizar e dt jug = Inr e'"
  shows "vida e' = vida e \<and> vida_maxima e' = vida_maxima e \<and> activo e' = activo e"
proof (cases "dt \<le> 0 \<or> \<not> activo e")
  case True
  with assms show ?thesis by (auto simp add: Enemigo_actualizar_def split: if_splits)
next
  case False
  with assms have "e' = mantener_en_pantalla
      (perseguir_objetivo (actualizar_invulnerabilidad e dt) dt jug)"
    by (simp add: Enemigo_actualizar_def Let_def)
  then show ?thesis
    by (simp add: mantener_en_pantalla_vida perseguir_objetivo_vida
          actualizar_invulnerabilidad_vida)
qed

lemma vida_valida_aplicar_llamada:
  assumes "vida_valida e"
  shows "vida_valida (aplicar_llamada e c)"
proof (cases c)
  case Llamar_recibir_dano
  with assms show ?thesis by (simp add: vida_valida_recibir_dano)
next
  case (Llamar_actualizar dt jug)
  show ?thesis
  proof (cases "Enemigo_actualizar e dt jug")
    case (Inl err)
    with Llamar_actualizar assms show ?thesis by simp
  next
    case (Inr e')
    from Enemigo_actualizar_vida [OF Inr] assms have "vida_valida e'"
      by (simp add: vida_valida_def)
    with Llamar_actualizar Inr show ?thesis by simp
  qed
qed

lemma vida_valida_aplicar_llamadas: "vida_valida e \<Longrightarrow> vida_valida (aplicar_llamadas e cs)"
  unfolding aplicar_llamadas_def
  by (induction cs arbitrary: e) (simp_all add: vida_valida_aplicar_llamada)

lemma Enemigo_init_vida_valida: "Enemigo_init p a b c r = Inr e \<Longrightarrow> vida_valida e"
  by (auto simp add: Enemigo_init_def vida_valida_def split: if_splits)

lemma aplicar_llamada_actualizar:
  assumes "0 < dt"
  shows "vida (aplicar_llamada e (Llamar_actualizar dt jug)) = vida e"
    and "activo (aplicar_llamada e (Llamar_actualizar dt jug)) = activo e"
    and "tiempo_invulnerable (aplicar_llamada e (Llamar_actualizar dt jug)) =
          (if activo e \<and> 0 < tiempo_invulnerable e then tiempo_invulnerable e - dt
           else tiempo_invulnerable e)"
  using assms
  by (simp_all add: Enemigo_actualizar_eq mantener_en_pantalla_vida perseguir_objetivo_vida
        actualizar_invulnerabilidad_vida mantener_en_pantalla_tiempo
        perseguir_objetivo_tiempo actualizar_invulnerabilidad_tiempo)

lemma aplicar_llamada_recibir_dano:
  assumes "tiempo_invulnerable e \<le> 0"
  shows "vida (aplicar_llamada e Llamar_recibir_dano) = max 0 (vida e - 1)"
    and "activo (aplicar_llamada e Llamar_recibir_dano) = (activo e \<and> 1 < vida e)"
    and "tiempo_invulnerable (aplicar_llamada e Llamar_recibir_dano) = 1 / 2"
  using assms by (simp_all add: recibir_dano_vulnerable)

lemma vida_valida_enemigo_ejemplo: "vida_valida enemigo_ejemplo"
  by (simp add: vida_valida_def enemigo_ejemplo_def)

lemma secuencia_ejemplo:
  "vida (aplicar_llamadas enemigo_ejemplo
      [Llamar_recibir_dano, Llamar_actualizar 1 jugador_ejemplo,
       Llamar_recibir_dano, Llamar_actualizar 1 jugador_ejemplo, Llamar_recibir_dano]) = 0"
proof -
  define e1 where "e1 = aplicar_llamada enemigo_ejemplo Llamar_recibir_dano"
  define e2 where "e2 = aplicar_llamada e1 (Llamar_actualizar 1 jugador_ejemplo)"
  define e3 where "e3 = aplicar_llamada e2 Llamar_recibir_dano"
  define e4 where "e4 = aplicar_llamada e3 (Llamar_actualizar 1 jugador_ejemplo)"
  define e5 where "e5 = aplicar_llamada e4 Llamar_recibir_dano"
  have p0: "tiempo_invulnerable enemigo_ejemplo \<le> 0" "vida enemigo_ejemplo = 3"
    "activo enemigo_ejemplo"
    by (simp_all add: enemigo_ejemplo_def)
  have p1: "vida e1 = 2" "activo e1" "tiempo_invulnerable e1 = 1 / 2"
    unfolding e1_def using p0 by (simp_all add: aplicar_llamada_recibir_dano del: aplicar_llamada.simps)
  have p2: "vida e2 = 2" "activo e2" "tiempo_invulnerable e2 = - (1 / 2)"
    unfolding e2_def using p1 by (simp_all add: aplicar_llamada_actualizar del: aplicar_llamada.simps)
  have p3: "vida e3 = 1" "activo e3" "tiempo_invulnerable e3 = 1 / 2"
    unfolding e3_def using p2 by (simp_all add: aplicar_llamada_recibir_dano del: aplicar_llamada.simps)
  have p4: "vida e4 = 1" "activo e4" "tiempo_invulnerable e4 = - (1 / 2)"
    unfolding e4_def using p3 by (simp_all add: aplicar_llamada_actualizar del: aplicar_llamada.simps)
  have p5: "vida e5 = 0"
    unfolding e5_def using p4 by (simp_all add: aplicar_llamada_recibir_dano del: aplicar_llamada.simps)
  have "aplicar_llamadas enemigo_ejemplo
      [Llamar_recibir_dano, Llamar_actualizar 1 jugador_ejemplo,
       Llamar_recibir_dano, Llamar_actualizar 1 jugador_ejemplo, Llamar_recibir_dano] = e5"
    by (simp only: aplicar_llamadas_def foldl.simps e1_def e2_def e3_def e4_def e5_def)
  with p5 show ?thesis by simp
qed

text \<open>
  C4. \<open>recibir_dano\<close> returns False and changes nothing while the enemy is invulnerable;
  otherwise it returns True (the killing hit included), takes one hit point, clamps the
  hit points at 0, starts 0.5 s of invulnerability and deactivates the enemy when no hit
  point is left. From a new enemy, and from every enemy whose hit points are in range,
  every sequence of calls keeps the hit points between 0 and the maximum, and an enemy
  with 0 hit points is inactive.
\<close>

theorem recibir_dano_contrato:
  "(0 < tiempo_invulnerable e \<longrightarrow> recibir_dano e = (False, e))
   \<and> (tiempo_invulnerable e \<le> 0 \<longrightarrow>
        recibir_dano e =
          (True, e\<lparr>activo := activo e \<and> 1 < vida e, vida := max 0 (vida e - 1),
                    tiempo_invulnerable := 1 / 2\<rparr>))
   \<and> (tiempo_invulnerable e \<le> 0 \<and> 1 \<le> vida e \<longrightarrow>
        vida (snd (recibir_dano e)) = vida e - 1)
   \<and> (Enemigo_init p a b c r = Inr e \<longrightarrow> vida_valida e)
   \<and> (vida_valida e \<longrightarrow>
        0 \<le> vida (aplicar_llamadas e cs)
        \<and> vida (aplicar_llamadas e cs) \<le> vida_maxima (aplicar_llamadas e cs)
        \<and> (vida (aplicar_llamadas e cs) = 0 \<longrightarrow> \<not> activo (aplicar_llamadas e cs)))"
proof -
  have seq: "vida_valida e \<Longrightarrow> vida_valida (aplicar_llamadas e cs)"
    by (rule vida_valida_aplicar_llamadas)
  have dec: "tiempo_invulnerable e \<le> 0 \<and> 1 \<le> vida e \<longrightarrow>
        vida (snd (recibir_dano e)) = vida e - 1"
    by (simp add: recibir_dano_vulnerable)
  show ?thesis
    using seq dec recibir_dano_invulnerable [of e] recibir_dano_vulnerable [of e]
      Enemigo_init_vida_valida [of p a b c r e]
    unfolding vida_valida_def by blast
qed

theorem recibir_dano_contrato_witness:
  "recibir_dano (snd (recibir_dano enemigo_ejemplo)) = (False, snd (recibir_dano enemigo_ejemplo))
   \<and> fst (recibir_dano enemigo_ejemplo) = True
   \<and> vida (snd (recibir_dano enemigo_ejemplo)) = 2
   \<and> tiempo_invulnerable (snd (recibir_dano enemigo_ejemplo)) = 1 / 2
   \<and> Enemigo_init pantalla_ejemplo 400 150 (255, 0, 0) 20 = Inr (enemigo_ejemplo\<lparr>objetivo := Sin_objetivo\<rparr>)
   \<and> vida_valida (enemigo_ejemplo\<lparr>objetivo := Sin_objetivo\<rparr>)
   \<and> vida (aplicar_llamadas enemigo_ejemplo
        [Llamar_recibir_dano, Llamar_actualizar 1 jugador_ejemplo,
         Llamar_recibir_dano, Llamar_actualizar 1 jugador_ejemplo, Llamar_recibir_dano]) = 0
   \<and> \<not> activo (aplicar_llamadas enemigo_ejemplo
        [Llamar_recibir_dano, Llamar_actualizar 1 jugador_ejemplo,
         Llamar_recibir_dano, Llamar_actualizar 1 jugador_ejemplo, Llamar_recibir_dano])"
proof -
  let ?e1 = "snd (recibir_dano enemigo_ejemplo)"
  let ?cs = "[Llamar_recibir_dano, Llamar_actualizar 1 jugador_ejemplo,
         Llamar_recibir_dano, Llamar_actualizar 1 jugador_ejemplo, Llamar_recibir_dano]"
  have t0: "tiempo_invulnerable enemigo_ejemplo \<le> 0" "1 \<le> vida enemigo_ejemplo"
    "vida enemigo_ejemplo = 3"
    by (simp_all add: enemigo_ejemplo_def)
  have ini: "Enemigo_init pantalla_ejemplo 400 150 (255, 0, 0) 20
      = Inr (enemigo_ejemplo\<lparr>objetivo := Sin_objetivo\<rparr>)"
    by (simp add: Enemigo_init_def enemigo_ejemplo_def)
  have e1: "recibir_dano enemigo_ejemplo =
      (True, enemigo_ejemplo\<lparr>activo := activo enemigo_ejemplo \<and> 1 < vida enemigo_ejemplo,
         vida := max 0 (vida enemigo_ejemplo - 1), tiempo_invulnerable := 1 / 2\<rparr>)"
    using recibir_dano_contrato [of enemigo_ejemplo] t0 by blast
  have t1: "0 < tiempo_invulnerable ?e1" by (simp add: e1)
  have c1: "recibir_dano ?e1 = (False, ?e1)"
    using recibir_dano_contrato [of ?e1] t1 by blast
  have c3: "vida ?e1 = 2"
    using recibir_dano_contrato [of enemigo_ejemplo] t0 by simp
  have c5: "vida_valida (enemigo_ejemplo\<lparr>objetivo := Sin_objetivo\<rparr>)"
    using recibir_dano_contrato [of "enemigo_ejemplo\<lparr>objetivo := Sin_objetivo\<rparr>"
        pantalla_ejemplo 400 150 "(255, 0, 0)" 20] ini by blast
  have seq: "vida (aplicar_llamadas enemigo_ejemplo ?cs) = 0
           \<longrightarrow> \<not> activo (aplicar_llamadas enemigo_ejemplo ?cs)"
    using recibir_dano_contrato [of enemigo_ejemplo _ _ _ _ _ ?cs] vida_valida_enemigo_ejemplo
    by blast
  show ?thesis using c1 e1 c3 ini c5 seq secuencia_ejemplo by simp
qed

text \<open>
  C6 (amended). For \<open>dt > 0\<close> the update of an enemy returns, and it subtracts
  \<open>dt\<close> from \<open>tiempo_invulnerable\<close> exactly when the enemy is active and the value
  is positive before the update; otherwise the value is unchanged. The value is not
  clamped: it ends at 0 or above when it was 0 or at least \<open>dt\<close> before the
  update, and it ends negative when the enemy is active and the value was positive and
  smaller than \<open>dt\<close>.
\<close>

theorem invulnerabilidad_sin_clamp:
  assumes "0 < dt"
  shows "\<exists>e'. Enemigo_actualizar e dt jug = Inr e'
     \<and> tiempo_invulnerable e' =
         (if activo e \<and> 0 < tiempo_invulnerable e then tiempo_invulnerable e - dt
          else tiempo_invulnerable e)
     \<and> (tiempo_invulnerable e = 0 \<or> dt \<le> tiempo_invulnerable e
          \<longrightarrow> 0 \<le> tiempo_invulnerable e')
     \<and> (activo e \<and> 0 < tiempo_invulnerable e \<and> tiempo_invulnerable e < dt
          \<longrightarrow> tiempo_invulnerable e' < 0)"
  using assms
  by (simp add: Enemigo_actualizar_eq mantener_en_pantalla_tiempo perseguir_objetivo_tiempo
        actualizar_invulnerabilidad_tiempo)

theorem invulnerabilidad_sin_clamp_witness:
  "(0::real) < 1 / 5
   \<and> (\<exists>e'. Enemigo_actualizar (snd (recibir_dano enemigo_ejemplo)) (1 / 5) jugador_ejemplo = Inr e'
         \<and> tiempo_invulnerable e' = 3 / 10 \<and> 0 \<le> tiempo_invulnerable e')
   \<and> (\<exists>e'. Enemigo_actualizar (snd (recibir_dano enemigo_ejemplo)) 1 jugador_ejemplo = Inr e'
         \<and> tiempo_invulnerable e' = - (1 / 2) \<and> tiempo_invulnerable e' < 0)"
proof -
  let ?e1 = "snd (recibir_dano enemigo_ejemplo)"
  have t0: "tiempo_invulnerable enemigo_ejemplo \<le> 0" "activo enemigo_ejemplo"
    "1 < vida enemigo_ejemplo"
    by (simp_all add: enemigo_ejemplo_def)
  then have e1: "activo ?e1" "tiempo_invulnerable ?e1 = 1 / 2"
    by (simp_all add: recibir_dano_vulnerable)
  have h: "(0::real) < 1 / 5" by simp
  have h1: "(0::real) < 1" by simp
  from invulnerabilidad_sin_clamp [OF h, of ?e1 jugador_ejemplo] e1
  have a: "\<exists>e'. Enemigo_actualizar ?e1 (1 / 5) jugador_ejemplo = Inr e'
         \<and> tiempo_invulnerable e' = 3 / 10 \<and> 0 \<le> tiempo_invulnerable e'"
    by auto
  from invulnerabilidad_sin_clamp [OF h1, of ?e1 jugador_ejemplo] e1
  have b: "\<exists>e'. Enemigo_actualizar ?e1 1 jugador_ejemplo = Inr e'
         \<and> tiempo_invulnerable e' = - (1 / 2) \<and> tiempo_invulnerable e' < 0"
    by auto
  from h a b show ?thesis by (intro conjI)
qed

text \<open>Without the amendment the statement fails: half a second of invulnerability, then
  one update of one second, leave \<open>tiempo_invulnerable\<close> at -0.5.\<close>

theorem invulnerabilidad_negativa_counterexample:
  "\<exists>e'. Enemigo_actualizar (snd (recibir_dano enemigo_ejemplo)) 1 jugador_ejemplo = Inr e'
       \<and> 0 \<le> tiempo_invulnerable (snd (recibir_dano enemigo_ejemplo))
       \<and> tiempo_invulnerable e' = - (1 / 2) \<and> \<not> 0 \<le> tiempo_invulnerable e'"
proof -
  have t0: "tiempo_invulnerable enemigo_ejemplo \<le> 0" "activo enemigo_ejemplo"
    "1 < vida enemigo_ejemplo"
    by (simp_all add: enemigo_ejemplo_def)
  show ?thesis
    using t0
    by (simp add: recibir_dano_vulnerable Enemigo_actualizar_eq mantener_en_pantalla_tiempo
          perseguir_objetivo_tiempo actualizar_invulnerabilidad_tiempo)
qed

section \<open>The player: firing\<close>

lemma Vector2D_init_sel: "Vector2D_init (comp_x v) (comp_y v) = v"
  by (simp add: Vector2D_init_def)

lemma vec_sub_init:
  "vec_sub (Vector2D_init a b) v = Vector2D_init (a - comp_x v) (b - comp_y v)"
  by (simp add: vec_sub_def Vector2D_init_def)

lemma disparar_en_cooldown:
  "ultimo_disparo j < cooldown_disparo j \<Longrightarrow> disparar j obj = Inr (False, j)"
  by (simp add: disparar_def)

lemma disparar_listo:
  assumes "cooldown_disparo j \<le> ultimo_disparo j"
  shows "disparar j obj =
     Inr (True, j\<lparr>proyectiles := proyectiles j @
            [\<lparr>pantalla = pantalla j, posicion = posicion j, color = (255, 255, 0),
              radio = 5, activo = True, velocidad_p = 300,
              direccion = normalizar (vec_sub (Vector2D_init (fst obj) (snd obj)) (posicion j)),
              tiempo_vida = 2\<rparr>],
          ultimo_disparo := 0\<rparr>)"
  using assms
  by (simp add: disparar_def Proyectil_init_def Let_def Vector2D_init_sel vec_sub_init)

text \<open>
  C9. \<open>disparar\<close> returns False and changes nothing while
  \<open>ultimo_disparo < cooldown_disparo\<close>; otherwise it returns True, appends exactly one
  new projectile, at the player's position and aimed at the target point, and resets
  \<open>ultimo_disparo\<close> to 0. Aimed at the target point: the direction of the projectile,
  scaled by the distance from the player to the target, is the vector from the player's
  position to the target, and it is a unit vector unless the target is the player's own
  position. It never raises: a shot on cooldown is a False result.
\<close>

theorem disparar_contrato:
  "(ultimo_disparo j < cooldown_disparo j \<longrightarrow> disparar j obj = Inr (False, j))
   \<and> (cooldown_disparo j \<le> ultimo_disparo j \<longrightarrow>
        (\<exists>pr. disparar j obj =
                Inr (True, j\<lparr>proyectiles := proyectiles j @ [pr], ultimo_disparo := 0\<rparr>)
           \<and> posicion pr = posicion j
           \<and> direccion pr =
               normalizar (vec_sub (Vector2D_init (fst obj) (snd obj)) (posicion j))
           \<and> vec_mul (direccion pr)
                 (magnitud (vec_sub (Vector2D_init (fst obj) (snd obj)) (posicion j)))
               = vec_sub (Vector2D_init (fst obj) (snd obj)) (posicion j)
           \<and> magnitud (direccion pr) =
               (if Vector2D_init (fst obj) (snd obj) = posicion j then 0 else 1)
           \<and> activo pr \<and> radio pr = 5 \<and> velocidad_p pr = 300 \<and> tiempo_vida pr = 2
           \<and> pantalla pr = pantalla j))
   \<and> (\<forall>e. disparar j obj \<noteq> Inl e)"
proof -
  have a: "ultimo_disparo j < cooldown_disparo j \<longrightarrow> disparar j obj = Inr (False, j)"
    by (simp add: disparar_en_cooldown)
  have b: "cooldown_disparo j \<le> ultimo_disparo j \<longrightarrow>
        (\<exists>pr. disparar j obj =
                Inr (True, j\<lparr>proyectiles := proyectiles j @ [pr], ultimo_disparo := 0\<rparr>)
           \<and> posicion pr = posicion j
           \<and> direccion pr =
               normalizar (vec_sub (Vector2D_init (fst obj) (snd obj)) (posicion j))
           \<and> vec_mul (direccion pr)
                 (magnitud (vec_sub (Vector2D_init (fst obj) (snd obj)) (posicion j)))
               = vec_sub (Vector2D_init (fst obj) (snd obj)) (posicion j)
           \<and> magnitud (direccion pr) =
               (if Vector2D_init (fst obj) (snd obj) = posicion j then 0 else 1)
           \<and> activo pr \<and> radio pr = 5 \<and> velocidad_p pr = 300 \<and> tiempo_vida pr = 2
           \<and> pantalla pr = pantalla j)"
  proof
    assume h: "cooldown_disparo j \<le> ultimo_disparo j"
    let ?d = "vec_sub (Vector2D_init (fst obj) (snd obj)) (posicion j)"
    let ?pr = "\<lparr>pantalla = pantalla j, posicion = posicion j, color = (255, 255, 0),
              radio = 5, activo = True, velocidad_p = 300,
              direccion = normalizar ?d, tiempo_vida = 2\<rparr> :: Proyectil"
    have r: "disparar j obj =
        Inr (True, j\<lparr>proyectiles := proyectiles j @ [?pr], ultimo_disparo := 0\<rparr>)"
      by (rule disparar_listo [OF h])
    have e: "vec_mul (direccion ?pr) (magnitud ?d) = ?d"
      by (simp add: normalizar_escala)
    have m: "magnitud (direccion ?pr) =
        (if Vector2D_init (fst obj) (snd obj) = posicion j then 0 else 1)"
      by (simp add: magnitud_de_normalizar magnitud_vec_sub_cero)
    have f: "posicion ?pr = posicion j" "direccion ?pr = normalizar ?d" "activo ?pr"
      "radio ?pr = 5" "velocidad_p ?pr = 300" "tiempo_vida ?pr = 2" "pantalla ?pr = pantalla j"
      by simp_all
    show "\<exists>pr. disparar j obj =
                Inr (True, j\<lparr>proyectiles := proyectiles j @ [pr], ultimo_disparo := 0\<rparr>)
           \<and> posicion pr = posicion j
           \<and> direccion pr =
               normalizar (vec_sub (Vector2D_init (fst obj) (snd obj)) (posicion j))
           \<and> vec_mul (direccion pr)
                 (magnitud (vec_sub (Vector2D_init (fst obj) (snd obj)) (posicion j)))
               = vec_sub (Vector2D_init (fst obj) (snd obj)) (posicion j)
           \<and> magnitud (direccion pr) =
               (if Vector2D_init (fst obj) (snd obj) = posicion j then 0 else 1)
           \<and> activo pr \<and> radio pr = 5 \<and> velocidad_p pr = 300 \<and> tiempo_vida pr = 2
           \<and> pantalla pr = pantalla j"
      using r f(1) f(2) e m f(3-7) by (intro exI [of _ ?pr] conjI)
  qed
  have c: "\<forall>e. disparar j obj \<noteq> Inl e"
  proof (cases "ultimo_disparo j < cooldown_disparo j")
    case True
    then show ?thesis by (simp add: disparar_en_cooldown)
  next
    case False
    then show ?thesis by (simp add: disparar_listo)
  qed
  from a b c show ?thesis by (intro conjI)
qed

theorem disparar_contrato_witness:
  "disparar jugador_ejemplo (200, 400) = Inr (False, jugador_ejemplo)
   \<and> (\<exists>pr. disparar (jugador_ejemplo\<lparr>ultimo_disparo := 1 / 2\<rparr>) (200, 400) =
              Inr (True, jugador_ejemplo\<lparr>ultimo_disparo := 1 / 2\<rparr>
                     \<lparr>proyectiles := [pr], ultimo_disparo := 0\<rparr>)
          \<and> posicion pr = Vector2D_init 200 300 \<and> activo pr
          \<and> direccion pr = Vector2D_init 0 1
          \<and> vec_mul (direccion pr) 100 = Vector2D_init 0 100
          \<and> magnitud (direccion pr) = 1)"
proof -
  let ?j = "jugador_ejemplo\<lparr>ultimo_disparo := 1 / 2\<rparr>"
  let ?o = "(200, 400) :: real \<times> real"
  have h1: "ultimo_disparo jugador_ejemplo < cooldown_disparo jugador_ejemplo"
    by (simp add: jugador_ejemplo_def Jugador_init_def)
  have h2: "cooldown_disparo ?j \<le> ultimo_disparo ?j"
    by (simp add: jugador_ejemplo_def Jugador_init_def)
  have f: "posicion ?j = Vector2D_init 200 300" "proyectiles ?j = []"
    by (simp_all add: jugador_ejemplo_def Jugador_init_def)
  have d: "vec_sub (Vector2D_init (fst ?o) (snd ?o)) (posicion ?j)
      = \<lparr>comp_x = 0, comp_y = 100\<rparr>"
    by (simp add: f vec_sub_def Vector2D_init_def)
  have ne: "Vector2D_init (fst ?o) (snd ?o) \<noteq> posicion ?j"
    by (simp add: f Vector2D_init_def)
  have c1: "disparar jugador_ejemplo (200, 400) = Inr (False, jugador_ejemplo)"
    by (rule disparar_contrato [of jugador_ejemplo "(200, 400)", THEN conjunct1, THEN mp, OF h1])
  from disparar_contrato [of ?j "(200, 400)", THEN conjunct2, THEN conjunct1, THEN mp, OF h2]
  obtain pr where big: "disparar ?j (200, 400) =
        Inr (True, ?j\<lparr>proyectiles := proyectiles ?j @ [pr], ultimo_disparo := 0\<rparr>)
      \<and> posicion pr = posicion ?j
      \<and> direccion pr =
         normalizar (vec_sub (Vector2D_init (fst ?o) (snd ?o)) (posicion ?j))
      \<and> vec_mul (direccion pr)
         (magnitud (vec_sub (Vector2D_init (fst ?o) (snd ?o)) (posicion ?j)))
         = vec_sub (Vector2D_init (fst ?o) (snd ?o)) (posicion ?j)
      \<and> magnitud (direccion pr) =
         (if Vector2D_init (fst ?o) (snd ?o) = posicion ?j then 0 else 1)
      \<and> activo pr \<and> radio pr = 5 \<and> velocidad_p pr = 300 \<and> tiempo_vida pr = 2
      \<and> pantalla pr = pantalla ?j" ..
  from big have pr1: "disparar ?j (200, 400) =
      Inr (True, ?j\<lparr>proyectiles := proyectiles ?j @ [pr], ultimo_disparo := 0\<rparr>)"
    by (elim conjE)
  from big have pr2: "posicion pr = posicion ?j" by (elim conjE)
  from big have pr3: "activo pr" by (elim conjE)
  from big have pr4: "direccion pr =
       normalizar (vec_sub (Vector2D_init (fst ?o) (snd ?o)) (posicion ?j))"
    by (elim conjE)
  from big have pr5: "vec_mul (direccion pr)
       (magnitud (vec_sub (Vector2D_init (fst ?o) (snd ?o)) (posicion ?j)))
     = vec_sub (Vector2D_init (fst ?o) (snd ?o)) (posicion ?j)"
    by (elim conjE)
  from big have pr6: "magnitud (direccion pr) =
       (if Vector2D_init (fst ?o) (snd ?o) = posicion ?j then 0 else 1)"
    by (elim conjE)
  have dir: "direccion pr = Vector2D_init 0 1"
    unfolding pr4 d by (simp add: normalizar_0_100 Vector2D_init_def)
  have esc: "vec_mul (direccion pr) 100 = Vector2D_init 0 100"
    using pr5 unfolding d by (simp add: magnitud_100 Vector2D_init_def)
  have mag: "magnitud (direccion pr) = 1"
    unfolding pr6 using ne by (simp only: if_False)
  have pl: "proyectiles ?j @ [pr] = [pr]" by (simp only: f append_Nil)
  have r: "disparar ?j (200, 400) =
      Inr (True, ?j\<lparr>proyectiles := [pr], ultimo_disparo := 0\<rparr>)"
    using pr1 unfolding pl .
  have p: "posicion pr = Vector2D_init 200 300" unfolding pr2 by (rule f(1))
  note pr = pr1 pr2 pr3
  have "\<exists>pr. disparar ?j (200, 400) = Inr (True, ?j\<lparr>proyectiles := [pr], ultimo_disparo := 0\<rparr>)
          \<and> posicion pr = Vector2D_init 200 300 \<and> activo pr
          \<and> direccion pr = Vector2D_init 0 1
          \<and> vec_mul (direccion pr) 100 = Vector2D_init 0 100
          \<and> magnitud (direccion pr) = 1"
    using r p pr(3) dir esc mag by (intro exI [of _ pr] conjI)
  with c1 show ?thesis by (intro conjI)
qed

section \<open>The player: update and the first shot\<close>

lemma tiempo_acumulado_nonneg: "0 \<le> tiempo_acumulado cs"
  by (induction cs rule: tiempo_acumulado.induct) simp_all

lemma Proyectil_actualizar_eq:
  "0 < dt \<Longrightarrow> Proyectil_actualizar pr dt =
     Inr (if activo pr then
            verificar_desactivacion
              (pr\<lparr>posicion := vec_add (posicion pr) (vec_mul (direccion pr) (velocidad_p pr * dt)),
                  tiempo_vida := tiempo_vida pr - dt\<rparr>)
          else pr)"
  by (simp add: Proyectil_actualizar_def Let_def)

lemma actualizar_proyectiles_bucle_ok:
  "0 < dt \<Longrightarrow> \<exists>ps'. actualizar_proyectiles_bucle ps dt = Inr ps'"
proof (induction ps)
  case Nil
  then show ?case by simp
next
  case (Cons pr ps)
  then obtain ps' where "actualizar_proyectiles_bucle ps dt = Inr ps'" by blast
  moreover from Cons.prems obtain pr' where "Proyectil_actualizar pr dt = Inr pr'"
    by (simp add: Proyectil_actualizar_eq)
  ultimately show ?case by simp
qed

lemma Jugador_actualizar_eq:
  assumes "0 < dt"
  shows "\<exists>ps'. actualizar_proyectiles_bucle (proyectiles j) dt = Inr ps'
     \<and> Jugador_actualizar j dt m =
         Inr (if activo j then
                (mantener_en_pantalla (mover_hacia_mouse j m))
                  \<lparr>ultimo_disparo := ultimo_disparo j + dt, proyectiles := ps'\<rparr>
              else j)"
proof -
  from actualizar_proyectiles_bucle_ok [OF assms]
  obtain ps' where ps': "actualizar_proyectiles_bucle (proyectiles j) dt = Inr ps'" by blast
  have "Jugador_actualizar j dt m =
         Inr (if activo j then
                (mantener_en_pantalla (mover_hacia_mouse j m))
                  \<lparr>ultimo_disparo := ultimo_disparo j + dt, proyectiles := ps'\<rparr>
              else j)"
    using assms ps'
    by (simp add: Jugador_actualizar_def actualizar_proyectiles_def Let_def
          mantener_en_pantalla_def mover_hacia_mouse_def)
  with ps' show ?thesis by blast
qed

lemma aplicar_actualizar_jugador:
  "cooldown_disparo (aplicar_llamada_jugador j (Llamar_actualizar_jugador dt m)) = cooldown_disparo j
   \<and> ultimo_disparo (aplicar_llamada_jugador j (Llamar_actualizar_jugador dt m))
       \<le> ultimo_disparo j + (if dt \<le> 0 then 0 else dt)
   \<and> (proyectiles j = [] \<longrightarrow>
        proyectiles (aplicar_llamada_jugador j (Llamar_actualizar_jugador dt m)) = [])"
proof (cases "0 < dt")
  case True
  from Jugador_actualizar_eq [OF True, of j m]
  obtain ps' where ps': "actualizar_proyectiles_bucle (proyectiles j) dt = Inr ps'"
    and eq: "Jugador_actualizar j dt m =
         Inr (if activo j then
                (mantener_en_pantalla (mover_hacia_mouse j m))
                  \<lparr>ultimo_disparo := ultimo_disparo j + dt, proyectiles := ps'\<rparr>
              else j)" by blast
  have "proyectiles j = [] \<Longrightarrow> ps' = []" using ps' by simp
  with True eq show ?thesis
    by (auto simp add: mantener_en_pantalla_def mover_hacia_mouse_def Let_def)
next
  case False
  then show ?thesis by (simp add: Jugador_actualizar_def)
qed

lemma sin_disparo_invariante:
  assumes "cooldown_disparo j = 3 / 10" and "proyectiles j = []"
    and "ultimo_disparo j + tiempo_acumulado cs < 3 / 10"
  shows "cooldown_disparo (aplicar_llamadas_jugador j cs) = 3 / 10
     \<and> proyectiles (aplicar_llamadas_jugador j cs) = []
     \<and> ultimo_disparo (aplicar_llamadas_jugador j cs) < 3 / 10"
  using assms
proof (induction cs arbitrary: j)
  case Nil
  then show ?case by (simp add: aplicar_llamadas_jugador_def)
next
  case (Cons c cs)
  have step: "cooldown_disparo (aplicar_llamada_jugador j c) = 3 / 10
      \<and> proyectiles (aplicar_llamada_jugador j c) = []
      \<and> ultimo_disparo (aplicar_llamada_jugador j c) + tiempo_acumulado cs < 3 / 10"
  proof (cases c)
    case (Llamar_actualizar_jugador dt m)
    from aplicar_actualizar_jugador [of j dt m] Cons.prems Llamar_actualizar_jugador
    show ?thesis by (auto split: if_splits)
  next
    case (Llamar_disparar obj)
    from Cons.prems tiempo_acumulado_nonneg [of cs] Llamar_disparar
    have "ultimo_disparo j < cooldown_disparo j" by simp
    then have "disparar j obj = Inr (False, j)" by (rule disparar_en_cooldown)
    with Cons.prems Llamar_disparar show ?thesis by simp
  qed
  from Cons.IH [of "aplicar_llamada_jugador j c"] step
  show ?case by (simp add: aplicar_llamadas_jugador_def)
qed

text \<open>
  C10. A new player has \<open>ultimo_disparo = 0\<close>, below the cooldown of 0.3 s. After
  any sequence of calls of \<open>actualizar\<close> and \<open>disparar\<close> whose accumulated update
  time is below 0.3 s, \<open>disparar\<close> returns False, changes nothing, and the player
  has no projectile.
\<close>

theorem jugador_nuevo_no_dispara:
  assumes "tiempo_acumulado cs < 3 / 10"
  shows "ultimo_disparo (Jugador_init p a b c) = 0
     \<and> cooldown_disparo (Jugador_init p a b c) = 3 / 10
     \<and> disparar (aplicar_llamadas_jugador (Jugador_init p a b c) cs) obj =
         Inr (False, aplicar_llamadas_jugador (Jugador_init p a b c) cs)
     \<and> proyectiles (aplicar_llamadas_jugador (Jugador_init p a b c) cs) = []"
proof -
  let ?j0 = "Jugador_init p a b c"
  have i: "ultimo_disparo ?j0 = 0" "cooldown_disparo ?j0 = 3 / 10" "proyectiles ?j0 = []"
    by (simp_all add: Jugador_init_def)
  with assms have "ultimo_disparo ?j0 + tiempo_acumulado cs < 3 / 10" by simp
  from sin_disparo_invariante [OF i(2) i(3) this]
  have inv: "cooldown_disparo (aplicar_llamadas_jugador ?j0 cs) = 3 / 10"
    "proyectiles (aplicar_llamadas_jugador ?j0 cs) = []"
    "ultimo_disparo (aplicar_llamadas_jugador ?j0 cs) < 3 / 10" by simp_all
  then have "disparar (aplicar_llamadas_jugador ?j0 cs) obj =
      Inr (False, aplicar_llamadas_jugador ?j0 cs)"
    by (simp add: disparar_en_cooldown)
  with i inv show ?thesis by simp
qed

theorem jugador_nuevo_no_dispara_witness:
  "tiempo_acumulado
      [Llamar_actualizar_jugador (1 / 10) (700, 500), Llamar_disparar (700, 500),
       Llamar_actualizar_jugador (1 / 10) (700, 500)] < 3 / 10
   \<and> disparar (aplicar_llamadas_jugador jugador_ejemplo
        [Llamar_actualizar_jugador (1 / 10) (700, 500), Llamar_disparar (700, 500),
         Llamar_actualizar_jugador (1 / 10) (700, 500)]) (700, 500) =
      Inr (False, aplicar_llamadas_jugador jugador_ejemplo
        [Llamar_actualizar_jugador (1 / 10) (700, 500), Llamar_disparar (700, 500),
         Llamar_actualizar_jugador (1 / 10) (700, 500)])
   \<and> proyectiles (aplicar_llamadas_jugador jugador_ejemplo
        [Llamar_actualizar_jugador (1 / 10) (700, 500), Llamar_disparar (700, 500),
         Llamar_actualizar_jugador (1 / 10) (700, 500)]) = []"
proof -
  let ?cs = "[Llamar_actualizar_jugador (1 / 10) (700, 500), Llamar_disparar (700, 500),
       Llamar_actualizar_jugador (1 / 10) (700, 500)]"
  have h: "tiempo_acumulado ?cs < 3 / 10" by simp
  from jugador_nuevo_no_dispara [OF h, of pantalla_ejemplo 200 300 "(0, 255, 0)" "(700, 500)"] h
  show ?thesis unfolding jugador_ejemplo_def by blast
qed

section \<open>The phases of a frame\<close>

lemma cambia_memoria_puntos_refl: "cambia_memoria_puntos s s"
proof -
  have "s = s\<lparr>memoria := memoria s, puntos := puntos s\<rparr>" by simp
  then show ?thesis unfolding cambia_memoria_puntos_def by (metis order_refl)
qed

lemma cambia_memoria_puntos_trans:
  assumes "cambia_memoria_puntos s s1" and "cambia_memoria_puntos s1 s2"
  shows "cambia_memoria_puntos s s2"
proof -
  from assms(1) obtain m1 k1 where s1: "s1 = s\<lparr>memoria := m1, puntos := k1\<rparr>"
    and le1: "puntos s \<le> k1"
    unfolding cambia_memoria_puntos_def by blast
  from assms(2) obtain m2 k2 where s2: "s2 = s1\<lparr>memoria := m2, puntos := k2\<rparr>"
    and le2: "puntos s1 \<le> k2"
    unfolding cambia_memoria_puntos_def by blast
  from s1 s2 have "s2 = s\<lparr>memoria := m2, puntos := k2\<rparr>" by simp
  moreover from s1 le1 le2 have "puntos s \<le> k2" by simp
  ultimately show ?thesis unfolding cambia_memoria_puntos_def by blast
qed

lemma desactivado_o_igual_refl: "desactivado_o_igual p p"
  by (simp add: desactivado_o_igual_def)

lemma desactivado_o_igual_trans:
  "desactivado_o_igual p p1 \<Longrightarrow> desactivado_o_igual p1 p2 \<Longrightarrow> desactivado_o_igual p p2"
  by (auto simp add: desactivado_o_igual_def)

lemma actualizar_enemigos_memoria:
  "0 < dt \<Longrightarrow> \<exists>m. actualizar_enemigos s dt rs = Inr (s\<lparr>memoria := m\<rparr>)"
proof (induction rs arbitrary: s)
  case Nil
  have "s = s\<lparr>memoria := memoria s\<rparr>" by simp
  then show ?case by (metis actualizar_enemigos.simps(1))
next
  case (Cons r rs)
  show ?case
  proof (cases "activo (memoria s r)")
    case True
    from Enemigo_actualizar_eq [OF Cons.prems, of "memoria s r" "jugador s"]
    obtain en where en: "Enemigo_actualizar (memoria s r) dt (jugador s) = Inr en" by blast
    from Cons.IH [OF Cons.prems, of "s\<lparr>memoria := (memoria s)(r := en)\<rparr>"]
    obtain m where "actualizar_enemigos (s\<lparr>memoria := (memoria s)(r := en)\<rparr>) dt rs =
        Inr (s\<lparr>memoria := (memoria s)(r := en)\<rparr>\<lparr>memoria := m\<rparr>)" by blast
    with True en have "actualizar_enemigos s dt (r # rs) = Inr (s\<lparr>memoria := m\<rparr>)" by simp
    then show ?thesis by blast
  next
    case False
    with Cons.IH [OF Cons.prems, of s] show ?thesis by simp
  qed
qed

lemma golpear_cambia: "cambia_memoria_puntos s (golpear s r)"
proof (cases "recibir_dano (memoria s r)")
  case (Pair golpe en)
  then have "golpear s r =
      s\<lparr>memoria := (memoria s)(r := en), puntos := (if golpe then puntos s + 2 else puntos s)\<rparr>"
    by (simp add: golpear_def Let_def)
  moreover have "puntos s \<le> (if golpe then puntos s + 2 else puntos s)" by simp
  ultimately show ?thesis unfolding cambia_memoria_puntos_def by blast
qed

lemma cuerpo_enemigo_principal_cambia:
  assumes "cuerpo_enemigo_principal s p = (s', p')"
  shows "cambia_memoria_puntos s s' \<and> desactivado_o_igual p p'"
  using assms
  by (auto simp add: cuerpo_enemigo_principal_def golpear_cambia cambia_memoria_puntos_refl
        desactivado_o_igual_def split: if_splits)

lemma bucle_enemigos_proyectil_cambia:
  "bucle_enemigos_proyectil s p rs = (s', p') \<Longrightarrow>
     cambia_memoria_puntos s s' \<and> desactivado_o_igual p p'"
proof (induction rs arbitrary: s p)
  case Nil
  then show ?case by (simp add: cambia_memoria_puntos_refl desactivado_o_igual_refl)
next
  case (Cons r rs)
  let ?s1 = "if colision p (memoria s r) then golpear s r else s"
  from Cons.prems have "bucle_enemigos_proyectil ?s1 (p\<lparr>activo := False\<rparr>) rs = (s', p')"
    by (simp add: Let_def)
  from Cons.IH [OF this]
  have ih: "cambia_memoria_puntos ?s1 s'" "desactivado_o_igual (p\<lparr>activo := False\<rparr>) p'"
    by simp_all
  have "cambia_memoria_puntos s ?s1"
    by (simp add: golpear_cambia cambia_memoria_puntos_refl)
  from this ih(1) have a: "cambia_memoria_puntos s s'" by (rule cambia_memoria_puntos_trans)
  from ih(2) have "desactivado_o_igual p p'" by (auto simp add: desactivado_o_igual_def)
  with a show ?case by simp
qed

lemma cuerpo_todos_los_enemigos_cambia:
  "cuerpo_todos_los_enemigos s p = (s', p') \<Longrightarrow>
     cambia_memoria_puntos s s' \<and> desactivado_o_igual p p'"
  unfolding cuerpo_todos_los_enemigos_def by (rule bucle_enemigos_proyectil_cambia)

lemma bucle_proyectiles_cambia:
  assumes cuerpo: "\<And>s p s' p'. cuerpo s p = (s', p') \<Longrightarrow>
      cambia_memoria_puntos s s' \<and> desactivado_o_igual p p'"
  shows "bucle_proyectiles cuerpo s ps = (s', ps') \<Longrightarrow>
     cambia_memoria_puntos s s' \<and> list_all2 desactivado_o_igual ps ps'"
proof (induction ps arbitrary: s s' ps')
  case Nil
  then show ?case by (simp add: cambia_memoria_puntos_refl)
next
  case (Cons p ps)
  obtain s1 p1 where c: "cuerpo s p = (s1, p1)" by (cases "cuerpo s p")
  obtain s2 ps2 where b: "bucle_proyectiles cuerpo s1 ps = (s2, ps2)"
    by (cases "bucle_proyectiles cuerpo s1 ps")
  from Cons.prems c b have eq: "s' = s2" "ps' = p1 # ps2" by simp_all
  from cuerpo [OF c] Cons.IH [OF b] eq show ?case
    by (auto intro: cambia_memoria_puntos_trans)
qed

lemma cambia_memoria_puntos_colisiones:
  assumes "cambia_memoria_puntos s s'"
  shows "cambia_colisiones s s'"
proof -
  from assms obtain m k where s': "s' = s\<lparr>memoria := m, puntos := k\<rparr>" and le: "puntos s \<le> k"
    unfolding cambia_memoria_puntos_def by blast
  from s' have "s' = s\<lparr>memoria := m, puntos := k,
      jugador := (jugador s)\<lparr>proyectiles := proyectiles (jugador s)\<rparr>\<rparr>" by simp
  moreover have "list_all2 desactivado_o_igual (proyectiles (jugador s)) (proyectiles (jugador s))"
    by (simp add: list_all2_refl desactivado_o_igual_refl)
  ultimately show ?thesis using le unfolding cambia_colisiones_def by blast
qed

lemma list_all2_desactivado_trans:
  assumes "list_all2 desactivado_o_igual ps ps1" and "list_all2 desactivado_o_igual ps1 ps2"
  shows "list_all2 desactivado_o_igual ps ps2"
  using assms
  by (rule list_all2_trans [rotated]) (rule desactivado_o_igual_trans)

lemma cambia_colisiones_trans:
  assumes "cambia_colisiones s s1" and "cambia_colisiones s1 s2"
  shows "cambia_colisiones s s2"
proof -
  from assms(1) obtain m1 k1 ps1 where
    s1: "s1 = s\<lparr>memoria := m1, puntos := k1, jugador := (jugador s)\<lparr>proyectiles := ps1\<rparr>\<rparr>"
    and le1: "puntos s \<le> k1"
    and l1: "list_all2 desactivado_o_igual (proyectiles (jugador s)) ps1"
    unfolding cambia_colisiones_def by blast
  from assms(2) obtain m2 k2 ps2 where
    s2: "s2 = s1\<lparr>memoria := m2, puntos := k2, jugador := (jugador s1)\<lparr>proyectiles := ps2\<rparr>\<rparr>"
    and le2: "puntos s1 \<le> k2"
    and l2: "list_all2 desactivado_o_igual (proyectiles (jugador s1)) ps2"
    unfolding cambia_colisiones_def by blast
  from s1 s2 have "s2 = s\<lparr>memoria := m2, puntos := k2,
      jugador := (jugador s)\<lparr>proyectiles := ps2\<rparr>\<rparr>" by simp
  moreover from s1 le1 le2 have "puntos s \<le> k2" by simp
  moreover from s1 l2 have "list_all2 desactivado_o_igual ps1 ps2" by simp
  with l1 have "list_all2 desactivado_o_igual (proyectiles (jugador s)) ps2"
    by (rule list_all2_desactivado_trans)
  ultimately show ?thesis unfolding cambia_colisiones_def by blast
qed

lemma bucle_proyectiles_colisiones:
  assumes cuerpo: "\<And>s p s' p'. cuerpo s p = (s', p') \<Longrightarrow>
      cambia_memoria_puntos s s' \<and> desactivado_o_igual p p'"
    and b: "bucle_proyectiles cuerpo s (proyectiles (jugador s)) = (s1, ps)"
  shows "cambia_colisiones s (s1\<lparr>jugador := (jugador s1)\<lparr>proyectiles := ps\<rparr>\<rparr>)"
proof -
  from bucle_proyectiles_cambia [of cuerpo, OF cuerpo b]
  have r: "cambia_memoria_puntos s s1" "list_all2 desactivado_o_igual (proyectiles (jugador s)) ps"
    by simp_all
  from r(1) obtain m k where s1: "s1 = s\<lparr>memoria := m, puntos := k\<rparr>" and le: "puntos s \<le> k"
    unfolding cambia_memoria_puntos_def by blast
  from s1 have "s1\<lparr>jugador := (jugador s1)\<lparr>proyectiles := ps\<rparr>\<rparr> =
      s\<lparr>memoria := m, puntos := k, jugador := (jugador s)\<lparr>proyectiles := ps\<rparr>\<rparr>" by simp
  with le r(2) show ?thesis unfolding cambia_colisiones_def by blast
qed

lemma verificar_colisiones_proyectiles_cambia:
  "cambia_colisiones s (verificar_colisiones_proyectiles s)"
proof -
  obtain s1 ps where b: "bucle_proyectiles cuerpo_enemigo_principal s (proyectiles (jugador s))
      = (s1, ps)"
    by (cases "bucle_proyectiles cuerpo_enemigo_principal s (proyectiles (jugador s))")
  from bucle_proyectiles_colisiones [of cuerpo_enemigo_principal, OF _ b]
  have "cambia_colisiones s (s1\<lparr>jugador := (jugador s1)\<lparr>proyectiles := ps\<rparr>\<rparr>)"
    by (simp add: cuerpo_enemigo_principal_cambia)
  then show ?thesis by (simp add: verificar_colisiones_proyectiles_def b)
qed

lemma colisiones_proyectiles_cambia: "cambia_colisiones s (colisiones_proyectiles s)"
proof -
  let ?s1 = "verificar_colisiones_proyectiles s"
  obtain s2 ps where b: "bucle_proyectiles cuerpo_todos_los_enemigos ?s1 (proyectiles (jugador ?s1))
      = (s2, ps)"
    by (cases "bucle_proyectiles cuerpo_todos_los_enemigos ?s1 (proyectiles (jugador ?s1))")
  from bucle_proyectiles_colisiones [of cuerpo_todos_los_enemigos, OF _ b]
  have "cambia_colisiones ?s1 (s2\<lparr>jugador := (jugador s2)\<lparr>proyectiles := ps\<rparr>\<rparr>)"
    by (simp add: cuerpo_todos_los_enemigos_cambia)
  with verificar_colisiones_proyectiles_cambia [of s]
  have "cambia_colisiones s (s2\<lparr>jugador := (jugador s2)\<lparr>proyectiles := ps\<rparr>\<rparr>)"
    by (rule cambia_colisiones_trans)
  then show ?thesis by (simp add: colisiones_proyectiles_def Let_def b)
qed

section \<open>Contact damage\<close>

lemma bucle_jugador_enemigos_sin_cooldown:
  assumes "tiempo_desde_ultimo_dano s < cooldown_dano s"
  shows "bucle_jugador_enemigos s rs = s"
  using assms by (induction rs) simp_all

lemma bucle_jugador_enemigos_sin_colision:
  assumes "\<forall>r \<in> set rs. \<not> colision (jugador s) (memoria s r)"
  shows "bucle_jugador_enemigos s rs = s"
  using assms by (induction rs) simp_all

lemma bucle_jugador_enemigos_una_vez:
  assumes "0 < cooldown_dano s"
  shows "bucle_jugador_enemigos s rs =
     (if cooldown_dano s \<le> tiempo_desde_ultimo_dano s
         \<and> (\<exists>r \<in> set rs. colision (jugador s) (memoria s r))
      then dano_contacto s else s)"
  using assms
proof (induction rs)
  case Nil
  then show ?case by simp
next
  case (Cons r rs)
  show ?case
  proof (cases "colision (jugador s) (memoria s r)
      \<and> cooldown_dano s \<le> tiempo_desde_ultimo_dano s")
    case True
    have "tiempo_desde_ultimo_dano (dano_contacto s) < cooldown_dano (dano_contacto s)"
      using Cons.prems by (simp add: dano_contacto_def)
    then have "bucle_jugador_enemigos (dano_contacto s) rs = dano_contacto s"
      by (rule bucle_jugador_enemigos_sin_cooldown)
    with True show ?thesis by (simp add: dano_contacto_def)
  next
    case False
    then have step: "bucle_jugador_enemigos s (r # rs) = bucle_jugador_enemigos s rs"
      by auto
    from False have q:
      "(cooldown_dano s \<le> tiempo_desde_ultimo_dano s
          \<and> (\<exists>x \<in> set (r # rs). colision (jugador s) (memoria s x)))
       = (cooldown_dano s \<le> tiempo_desde_ultimo_dano s
          \<and> (\<exists>x \<in> set rs. colision (jugador s) (memoria s x)))"
      by auto
    show ?thesis by (simp only: step Cons.IH [OF Cons.prems] q)
  qed
qed

lemma colisiones_jugador_una_vez:
  assumes "0 < cooldown_dano s"
  shows "colisiones_jugador s =
     (if cooldown_dano s \<le> tiempo_desde_ultimo_dano s
         \<and> (colision (jugador s) (memoria s (enemigo s))
             \<or> (\<exists>r \<in> set (enemigos s). colision (jugador s) (memoria s r)))
      then dano_contacto s else s)"
proof (cases "colision (jugador s) (memoria s (enemigo s))
      \<and> cooldown_dano s \<le> tiempo_desde_ultimo_dano s")
  case True
  then have v: "verificar_colision_jugador_enemigo s = dano_contacto s"
    by (simp add: verificar_colision_jugador_enemigo_def dano_contacto_def)
  have "tiempo_desde_ultimo_dano (dano_contacto s) < cooldown_dano (dano_contacto s)"
    using assms by (simp add: dano_contacto_def)
  then have "bucle_jugador_enemigos (dano_contacto s) (enemigos (dano_contacto s)) = dano_contacto s"
    by (rule bucle_jugador_enemigos_sin_cooldown)
  with v True show ?thesis by (simp add: colisiones_jugador_def Let_def)
next
  case False
  then have v: "verificar_colision_jugador_enemigo s = s"
    by (auto simp add: verificar_colision_jugador_enemigo_def)
  have c: "colisiones_jugador s = bucle_jugador_enemigos s (enemigos s)"
    by (simp add: colisiones_jugador_def Let_def v)
  from False have q:
    "(cooldown_dano s \<le> tiempo_desde_ultimo_dano s
        \<and> (colision (jugador s) (memoria s (enemigo s))
            \<or> (\<exists>r \<in> set (enemigos s). colision (jugador s) (memoria s r))))
     = (cooldown_dano s \<le> tiempo_desde_ultimo_dano s
        \<and> (\<exists>r \<in> set (enemigos s). colision (jugador s) (memoria s r)))"
    by auto
  show ?thesis
    by (simp only: c bucle_jugador_enemigos_una_vez [OF assms] q)
qed

section \<open>What each phase of a frame keeps\<close>

lemma actualizar_enemigos_campos:
  assumes "actualizar_enemigos s dt rs = Inr s'" and "0 < dt"
  shows "puntos s' = puntos s \<and> jugando s' = jugando s \<and> jugador s' = jugador s
     \<and> cooldown_dano s' = cooldown_dano s \<and> pantalla_juego s' = pantalla_juego s
     \<and> tiempo_desde_ultimo_dano s' = tiempo_desde_ultimo_dano s"
proof -
  from actualizar_enemigos_memoria [OF assms(2), of s rs] assms(1)
  obtain m where "s' = s\<lparr>memoria := m\<rparr>" by auto
  then show ?thesis by simp
qed

lemma colisiones_proyectiles_campos:
  "puntos s \<le> puntos (colisiones_proyectiles s)
   \<and> jugando (colisiones_proyectiles s) = jugando s
   \<and> jugador (colisiones_proyectiles s) =
       (jugador s)\<lparr>proyectiles := proyectiles (jugador (colisiones_proyectiles s))\<rparr>
   \<and> list_all2 desactivado_o_igual (proyectiles (jugador s))
        (proyectiles (jugador (colisiones_proyectiles s)))
   \<and> cooldown_dano (colisiones_proyectiles s) = cooldown_dano s
   \<and> pantalla_juego (colisiones_proyectiles s) = pantalla_juego s
   \<and> tiempo_desde_ultimo_dano (colisiones_proyectiles s) = tiempo_desde_ultimo_dano s"
proof -
  from colisiones_proyectiles_cambia [of s] obtain m k ps where
    "colisiones_proyectiles s = s\<lparr>memoria := m, puntos := k,
        jugador := (jugador s)\<lparr>proyectiles := ps\<rparr>\<rparr>"
    and "puntos s \<le> k" and "list_all2 desactivado_o_igual (proyectiles (jugador s)) ps"
    unfolding cambia_colisiones_def by blast
  then show ?thesis by simp
qed

lemma colisiones_jugador_campos:
  assumes "0 < cooldown_dano s"
  shows "(puntos (colisiones_jugador s) = puntos s \<or> puntos (colisiones_jugador s) = puntos s - 2)
   \<and> jugando (colisiones_jugador s) = jugando s
   \<and> jugador (colisiones_jugador s) = jugador s
   \<and> cooldown_dano (colisiones_jugador s) = cooldown_dano s
   \<and> pantalla_juego (colisiones_jugador s) = pantalla_juego s"
  by (simp add: colisiones_jugador_una_vez [OF assms] dano_contacto_def)

lemma respawnear_enemigo_campos:
  assumes "respawnear_enemigo s az = Inr s'"
  shows "puntos s' = puntos s \<and> jugando s' = jugando s \<and> jugador s' = jugador s
     \<and> cooldown_dano s' = cooldown_dano s \<and> pantalla_juego s' = pantalla_juego s
     \<and> tiempo_desde_ultimo_dano s' = tiempo_desde_ultimo_dano s
     \<and> tiempo_enemigo s' = tiempo_enemigo s"
  using assms
  by (auto simp add: respawnear_enemigo_def Let_def split: if_splits sum.splits)

lemma respawnear_enemigo_ok:
  assumes "100 \<le> ancho (pantalla_juego s)" and "100 \<le> alto (pantalla_juego s)"
    and "0 < sorteo_radio az"
  shows "\<exists>s'. respawnear_enemigo s az = Inr s'"
  using assms
  by (simp add: respawnear_enemigo_def Let_def Enemigo_init_def establecer_objetivo_def)

lemma respawn_si_destruido_campos:
  assumes "respawn_si_destruido s az = Inr s'"
  shows "puntos s' = puntos s \<and> jugando s' = jugando s \<and> jugador s' = jugador s
     \<and> cooldown_dano s' = cooldown_dano s \<and> pantalla_juego s' = pantalla_juego s
     \<and> tiempo_desde_ultimo_dano s' = tiempo_desde_ultimo_dano s"
proof (cases "activo (memoria s (enemigo s))")
  case True
  with assms show ?thesis by (simp add: respawn_si_destruido_def)
next
  case False
  with assms have "respawnear_enemigo s az = Inr s'" by (simp add: respawn_si_destruido_def)
  from respawnear_enemigo_campos [OF this] show ?thesis by simp
qed

lemma enemigo_por_tiempo_campos:
  assumes "enemigo_por_tiempo s dt az = Inr s'"
  shows "puntos s' = puntos s \<and> jugando s' = jugando s \<and> jugador s' = jugador s
     \<and> cooldown_dano s' = cooldown_dano s \<and> pantalla_juego s' = pantalla_juego s
     \<and> tiempo_desde_ultimo_dano s' = tiempo_desde_ultimo_dano s"
proof (cases "intervalo_enemigo s \<le> tiempo_enemigo s + dt")
  case True
  with assms obtain s2 where
    r: "respawnear_enemigo (s\<lparr>tiempo_enemigo := tiempo_enemigo s + dt\<rparr>) az = Inr s2"
    and s': "s' = s2\<lparr>tiempo_enemigo := 0\<rparr>"
    by (auto simp add: enemigo_por_tiempo_def Let_def split: sum.splits)
  from respawnear_enemigo_campos [OF r] s' show ?thesis by simp
next
  case False
  with assms have "s' = s\<lparr>tiempo_enemigo := tiempo_enemigo s + dt\<rparr>"
    by (auto simp add: enemigo_por_tiempo_def Let_def)
  then show ?thesis by simp
qed

lemma ControlJuego_actualizar_fases:
  assumes "0 < dt" and "jugando s" and "ControlJuego_actualizar s dt az1 az2 = Inr s'"
  shows "\<exists>s2 s5.
     actualizar_enemigos (s\<lparr>tiempo_desde_ultimo_dano := tiempo_desde_ultimo_dano s + dt\<rparr>)
         dt (enemigos s) = Inr s2
     \<and> respawn_si_destruido (colisiones_jugador (colisiones_proyectiles s2)) az1 = Inr s5
     \<and> enemigo_por_tiempo (eliminar_inactivos (verificar_fin_del_juego s5)) dt az2 = Inr s'"
  using assms
  by (auto simp add: ControlJuego_actualizar_def Let_def split: sum.splits)

lemma ControlJuego_init_ejemplo: "ControlJuego_init pantalla_ejemplo = Inr sesion_ejemplo"
  by (simp add: ControlJuego_init_def Let_def Enemigo_init_def establecer_objetivo_def
        sesion_ejemplo_def jugador_ejemplo_def enemigo_ejemplo_def pantalla_ejemplo_def)

lemma ControlJuego_init_ok:
  "\<exists>s0. ControlJuego_init p = Inr s0 \<and> puntos s0 = 10 \<and> jugando s0 \<and> cooldown_dano s0 = 1"
  by (simp add: ControlJuego_init_def Let_def Enemigo_init_def establecer_objetivo_def)

lemma verificar_fin_del_juego_campos:
  "puntos (verificar_fin_del_juego s) = max 0 (puntos s)
   \<and> jugando (verificar_fin_del_juego s) = (jugando s \<and> 0 < puntos s)
   \<and> jugador (verificar_fin_del_juego s) = jugador s
   \<and> pantalla_juego (verificar_fin_del_juego s) = pantalla_juego s"
  by (simp add: verificar_fin_del_juego_def max_def)

lemma eliminar_inactivos_campos:
  "puntos (eliminar_inactivos s) = puntos s \<and> jugando (eliminar_inactivos s) = jugando s
   \<and> jugador (eliminar_inactivos s) = jugador s
   \<and> pantalla_juego (eliminar_inactivos s) = pantalla_juego s"
  by (simp add: eliminar_inactivos_def)

lemma bucle_jugador_enemigos_campos:
  "jugando (bucle_jugador_enemigos s rs) = jugando s
   \<and> jugador (bucle_jugador_enemigos s rs) = jugador s
   \<and> cooldown_dano (bucle_jugador_enemigos s rs) = cooldown_dano s
   \<and> pantalla_juego (bucle_jugador_enemigos s rs) = pantalla_juego s"
proof (induction rs arbitrary: s)
  case Nil
  show ?case by simp
next
  case (Cons r rs)
  show ?case
  proof (cases "colision (jugador s) (memoria s r)
      \<and> cooldown_dano s \<le> tiempo_desde_ultimo_dano s")
    case True
    then have "bucle_jugador_enemigos s (r # rs) =
        bucle_jugador_enemigos (s\<lparr>puntos := puntos s - 2, tiempo_desde_ultimo_dano := 0\<rparr>) rs"
      by simp
    with Cons [of "s\<lparr>puntos := puntos s - 2, tiempo_desde_ultimo_dano := 0\<rparr>"]
    show ?thesis by simp
  next
    case False
    then have "bucle_jugador_enemigos s (r # rs) = bucle_jugador_enemigos s rs" by auto
    with Cons [of s] show ?thesis by simp
  qed
qed

lemma colisiones_jugador_jugando:
  "jugando (colisiones_jugador s) = jugando s
   \<and> jugador (colisiones_jugador s) = jugador s
   \<and> cooldown_dano (colisiones_jugador s) = cooldown_dano s
   \<and> pantalla_juego (colisiones_jugador s) = pantalla_juego s"
proof -
  have "jugando (verificar_colision_jugador_enemigo s) = jugando s
     \<and> jugador (verificar_colision_jugador_enemigo s) = jugador s
     \<and> cooldown_dano (verificar_colision_jugador_enemigo s) = cooldown_dano s
     \<and> pantalla_juego (verificar_colision_jugador_enemigo s) = pantalla_juego s"
    by (simp add: verificar_colision_jugador_enemigo_def)
  then show ?thesis
    by (simp add: colisiones_jugador_def Let_def bucle_jugador_enemigos_campos)
qed

lemma ControlJuego_actualizar_resumen:
  assumes dt: "0 < dt" and j: "jugando s" and r: "ControlJuego_actualizar s dt az1 az2 = Inr s'"
  shows "\<exists>s2. actualizar_enemigos
                (s\<lparr>tiempo_desde_ultimo_dano := tiempo_desde_ultimo_dano s + dt\<rparr>) dt (enemigos s)
              = Inr s2
     \<and> puntos s2 = puntos s \<and> jugador s2 = jugador s \<and> cooldown_dano s2 = cooldown_dano s
     \<and> puntos s' = max 0 (puntos (colisiones_jugador (colisiones_proyectiles s2)))
     \<and> jugando s' = (0 < puntos (colisiones_jugador (colisiones_proyectiles s2)))
     \<and> jugador s' = jugador (colisiones_jugador (colisiones_proyectiles s2))"
proof -
  let ?s1 = "s\<lparr>tiempo_desde_ultimo_dano := tiempo_desde_ultimo_dano s + dt\<rparr>"
  from ControlJuego_actualizar_fases [OF dt j r] obtain s2 s5 where
    a: "actualizar_enemigos ?s1 dt (enemigos s) = Inr s2"
    and b: "respawn_si_destruido (colisiones_jugador (colisiones_proyectiles s2)) az1 = Inr s5"
    and c: "enemigo_por_tiempo (eliminar_inactivos (verificar_fin_del_juego s5)) dt az2 = Inr s'"
    by blast
  let ?s4 = "colisiones_jugador (colisiones_proyectiles s2)"
  from actualizar_enemigos_campos [OF a dt]
  have f2: "puntos s2 = puntos s" "jugando s2 = jugando s" "jugador s2 = jugador s"
    "cooldown_dano s2 = cooldown_dano s" by simp_all
  have j4: "jugando ?s4 = jugando s"
    using colisiones_jugador_jugando [of "colisiones_proyectiles s2"]
      colisiones_proyectiles_campos [of s2] f2 by simp
  from respawn_si_destruido_campos [OF b]
  have f5: "puntos s5 = puntos ?s4" "jugando s5 = jugando ?s4" "jugador s5 = jugador ?s4"
    by simp_all
  from enemigo_por_tiempo_campos [OF c]
  have f': "puntos s' = max 0 (puntos s5)" "jugando s' = (jugando s5 \<and> 0 < puntos s5)"
    "jugador s' = jugador s5"
    by (simp_all add: eliminar_inactivos_campos verificar_fin_del_juego_campos)
  from a f2 f5 f' j4 j show ?thesis by simp
qed

lemma ControlJuego_actualizar_ok:
  assumes dt: "0 < dt"
    and w: "100 \<le> ancho (pantalla_juego s)" and h: "100 \<le> alto (pantalla_juego s)"
    and r1: "0 < sorteo_radio az1" and r2: "0 < sorteo_radio az2"
  shows "\<exists>s'. ControlJuego_actualizar s dt az1 az2 = Inr s'"
proof (cases "jugando s")
  case False
  with dt show ?thesis by (simp add: ControlJuego_actualizar_def)
next
  case True
  let ?s1 = "s\<lparr>tiempo_desde_ultimo_dano := tiempo_desde_ultimo_dano s + dt\<rparr>"
  from actualizar_enemigos_memoria [OF dt, of ?s1 "enemigos ?s1"]
  obtain s2 where a: "actualizar_enemigos ?s1 dt (enemigos ?s1) = Inr s2" by blast
  from actualizar_enemigos_campos [OF a dt]
  have p2: "pantalla_juego s2 = pantalla_juego s" by simp
  let ?s4 = "colisiones_jugador (colisiones_proyectiles s2)"
  have p4: "pantalla_juego ?s4 = pantalla_juego s"
    using colisiones_jugador_jugando [of "colisiones_proyectiles s2"]
      colisiones_proyectiles_campos [of s2] p2 by simp
  have "\<exists>s5. respawn_si_destruido ?s4 az1 = Inr s5"
  proof (cases "activo (memoria ?s4 (enemigo ?s4))")
    case True
    then show ?thesis by (simp add: respawn_si_destruido_def)
  next
    case False
    with respawnear_enemigo_ok [of ?s4 az1] p4 w h r1 show ?thesis
      by (simp add: respawn_si_destruido_def)
  qed
  then obtain s5 where b: "respawn_si_destruido ?s4 az1 = Inr s5" by blast
  from respawn_si_destruido_campos [OF b] p4
  have p5: "pantalla_juego s5 = pantalla_juego s" by simp
  let ?s7 = "eliminar_inactivos (verificar_fin_del_juego s5)"
  have p7: "pantalla_juego ?s7 = pantalla_juego s"
    using p5 by (simp add: eliminar_inactivos_campos verificar_fin_del_juego_campos)
  have "\<exists>s'. enemigo_por_tiempo ?s7 dt az2 = Inr s'"
  proof (cases "intervalo_enemigo ?s7 \<le> tiempo_enemigo ?s7 + dt")
    case True
    from respawnear_enemigo_ok [of "?s7\<lparr>tiempo_enemigo := tiempo_enemigo ?s7 + dt\<rparr>" az2]
      p7 w h r2
    obtain s8 where "respawnear_enemigo (?s7\<lparr>tiempo_enemigo := tiempo_enemigo ?s7 + dt\<rparr>) az2
        = Inr s8" by auto
    with True show ?thesis by (simp add: enemigo_por_tiempo_def Let_def)
  next
    case False
    then show ?thesis by (simp add: enemigo_por_tiempo_def Let_def)
  qed
  then obtain s' where c: "enemigo_por_tiempo ?s7 dt az2 = Inr s'" by blast
  from dt True a b c have "ControlJuego_actualizar s dt az1 az2 = Inr s'"
    by (simp add: ControlJuego_actualizar_def Let_def)
  then show ?thesis by blast
qed

lemma colisiones_proyectiles_sin_proyectiles:
  assumes "proyectiles (jugador s) = []"
  shows "colisiones_proyectiles s = s"
proof -
  from assms have "(jugador s)\<lparr>proyectiles := []\<rparr> = jugador s"
    by (metis Jugador.surjective Jugador.update_convs(4))
  then have v: "verificar_colisiones_proyectiles s = s"
    by (simp add: verificar_colisiones_proyectiles_def assms)
  show ?thesis
    by (simp add: colisiones_proyectiles_def Let_def v assms \<open>(jugador s)\<lparr>proyectiles := []\<rparr> = jugador s\<close>)
qed

lemma colisiones_jugador_en_cooldown:
  assumes "tiempo_desde_ultimo_dano s < cooldown_dano s"
  shows "colisiones_jugador s = s"
proof -
  from assms have v: "verificar_colision_jugador_enemigo s = s"
    by (simp add: verificar_colision_jugador_enemigo_def)
  from assms have "bucle_jugador_enemigos s (enemigos s) = s"
    by (rule bucle_jugador_enemigos_sin_cooldown)
  with v show ?thesis by (simp add: colisiones_jugador_def Let_def)
qed

lemma frame_sin_colisiones:
  assumes dt: "0 < dt" and j: "jugando s" and np: "proyectiles (jugador s) = []"
    and cd: "tiempo_desde_ultimo_dano s + dt < cooldown_dano s"
    and r: "ControlJuego_actualizar s dt az1 az2 = Inr s'"
  shows "puntos s' = max 0 (puntos s) \<and> jugando s' = (0 < puntos s)"
proof -
  let ?s1 = "s\<lparr>tiempo_desde_ultimo_dano := tiempo_desde_ultimo_dano s + dt\<rparr>"
  from ControlJuego_actualizar_resumen [OF dt j r] obtain s2 where
    a: "actualizar_enemigos ?s1 dt (enemigos s) = Inr s2"
    and f: "puntos s2 = puntos s" "jugador s2 = jugador s" "cooldown_dano s2 = cooldown_dano s"
    and p: "puntos s' = max 0 (puntos (colisiones_jugador (colisiones_proyectiles s2)))"
    and g: "jugando s' = (0 < puntos (colisiones_jugador (colisiones_proyectiles s2)))"
    by blast
  from actualizar_enemigos_campos [OF a dt]
  have t2: "tiempo_desde_ultimo_dano s2 = tiempo_desde_ultimo_dano s + dt" by simp
  from np f(2) have "proyectiles (jugador s2) = []" by simp
  then have cp: "colisiones_proyectiles s2 = s2" by (rule colisiones_proyectiles_sin_proyectiles)
  from t2 f(3) cd have "tiempo_desde_ultimo_dano s2 < cooldown_dano s2" by simp
  then have cj: "colisiones_jugador s2 = s2" by (rule colisiones_jugador_en_cooldown)
  from p g show ?thesis by (simp only: cp cj f(1))
qed

text \<open>
  C5. A new session has 10 points. \<open>actualizar\<close> raises ValueError on
  \<open>dt \<le> 0\<close>, whatever the state; on a session that is not running it returns
  without changing anything; on a running session it ends with a score of at least 0
  and leaves the session running exactly when that score is not 0. On a window of at
  least 100 by 100 pixels, with radii drawn positive, the call returns. The score at the
  end of the frame is the score after the collision passes, raised to 0 if it is below,
  and the session is left running exactly when the score after the collision passes is
  above 0: a positive score is kept as it is and does not stop the session. So a frame
  with no projectile in flight and the contact damage still on cooldown keeps a
  positive score and runs on.
\<close>

theorem puntos_y_fin_del_juego:
  "(\<exists>s0. ControlJuego_init p = Inr s0 \<and> puntos s0 = 10 \<and> jugando s0)
   \<and> (dt \<le> 0 \<longrightarrow> ControlJuego_actualizar s dt az1 az2 = Inl ValueError)
   \<and> (0 < dt \<and> \<not> jugando s \<longrightarrow> ControlJuego_actualizar s dt az1 az2 = Inr s)
   \<and> (0 < dt \<and> jugando s \<and> ControlJuego_actualizar s dt az1 az2 = Inr s' \<longrightarrow>
        0 \<le> puntos s' \<and> (jugando s' \<longleftrightarrow> puntos s' \<noteq> 0))
   \<and> (0 < dt \<and> 100 \<le> ancho (pantalla_juego s) \<and> 100 \<le> alto (pantalla_juego s)
        \<and> 0 < sorteo_radio az1 \<and> 0 < sorteo_radio az2 \<longrightarrow>
        (\<exists>s''. ControlJuego_actualizar s dt az1 az2 = Inr s''))
   \<and> (0 < dt \<and> jugando s \<and> ControlJuego_actualizar s dt az1 az2 = Inr s' \<longrightarrow>
        (\<exists>s2. actualizar_enemigos
                 (s\<lparr>tiempo_desde_ultimo_dano := tiempo_desde_ultimo_dano s + dt\<rparr>) dt
                 (enemigos s) = Inr s2
           \<and> puntos s' = max 0 (puntos (colisiones_jugador (colisiones_proyectiles s2)))
           \<and> jugando s' = (0 < puntos (colisiones_jugador (colisiones_proyectiles s2)))))
   \<and> puntos (verificar_fin_del_juego s) = max 0 (puntos s)
   \<and> jugando (verificar_fin_del_juego s) = (jugando s \<and> 0 < puntos s)
   \<and> (0 < dt \<and> jugando s \<and> proyectiles (jugador s) = []
        \<and> tiempo_desde_ultimo_dano s + dt < cooldown_dano s
        \<and> ControlJuego_actualizar s dt az1 az2 = Inr s' \<longrightarrow>
        puntos s' = max 0 (puntos s) \<and> jugando s' = (0 < puntos s))"
proof -
  have a: "\<exists>s0. ControlJuego_init p = Inr s0 \<and> puntos s0 = 10 \<and> jugando s0"
    using ControlJuego_init_ok [of p] by blast
  have b: "dt \<le> 0 \<longrightarrow> ControlJuego_actualizar s dt az1 az2 = Inl ValueError"
    by (simp add: ControlJuego_actualizar_def)
  have c: "0 < dt \<and> \<not> jugando s \<longrightarrow> ControlJuego_actualizar s dt az1 az2 = Inr s"
    by (simp add: ControlJuego_actualizar_def)
  have f: "0 < dt \<and> jugando s \<and> ControlJuego_actualizar s dt az1 az2 = Inr s' \<longrightarrow>
        (\<exists>s2. actualizar_enemigos
                 (s\<lparr>tiempo_desde_ultimo_dano := tiempo_desde_ultimo_dano s + dt\<rparr>) dt
                 (enemigos s) = Inr s2
           \<and> puntos s' = max 0 (puntos (colisiones_jugador (colisiones_proyectiles s2)))
           \<and> jugando s' = (0 < puntos (colisiones_jugador (colisiones_proyectiles s2))))"
  proof
    assume h: "0 < dt \<and> jugando s \<and> ControlJuego_actualizar s dt az1 az2 = Inr s'"
    then have "0 < dt" "jugando s" "ControlJuego_actualizar s dt az1 az2 = Inr s'" by simp_all
    from ControlJuego_actualizar_resumen [OF this]
    show "\<exists>s2. actualizar_enemigos
                 (s\<lparr>tiempo_desde_ultimo_dano := tiempo_desde_ultimo_dano s + dt\<rparr>) dt
                 (enemigos s) = Inr s2
           \<and> puntos s' = max 0 (puntos (colisiones_jugador (colisiones_proyectiles s2)))
           \<and> jugando s' = (0 < puntos (colisiones_jugador (colisiones_proyectiles s2)))"
      by blast
  qed
  have d: "0 < dt \<and> jugando s \<and> ControlJuego_actualizar s dt az1 az2 = Inr s' \<longrightarrow>
        0 \<le> puntos s' \<and> (jugando s' \<longleftrightarrow> puntos s' \<noteq> 0)"
  proof
    assume h: "0 < dt \<and> jugando s \<and> ControlJuego_actualizar s dt az1 az2 = Inr s'"
    with f obtain s2 where
      "puntos s' = max 0 (puntos (colisiones_jugador (colisiones_proyectiles s2)))"
      "jugando s' = (0 < puntos (colisiones_jugador (colisiones_proyectiles s2)))"
      by blast
    then show "0 \<le> puntos s' \<and> (jugando s' \<longleftrightarrow> puntos s' \<noteq> 0)" by auto
  qed
  have e: "0 < dt \<and> 100 \<le> ancho (pantalla_juego s) \<and> 100 \<le> alto (pantalla_juego s)
        \<and> 0 < sorteo_radio az1 \<and> 0 < sorteo_radio az2 \<longrightarrow>
        (\<exists>s''. ControlJuego_actualizar s dt az1 az2 = Inr s'')"
    using ControlJuego_actualizar_ok [of dt s az1 az2] by blast
  have g: "puntos (verificar_fin_del_juego s) = max 0 (puntos s)"
    and g': "jugando (verificar_fin_del_juego s) = (jugando s \<and> 0 < puntos s)"
    by (simp_all add: verificar_fin_del_juego_campos)
  have i: "0 < dt \<and> jugando s \<and> proyectiles (jugador s) = []
        \<and> tiempo_desde_ultimo_dano s + dt < cooldown_dano s
        \<and> ControlJuego_actualizar s dt az1 az2 = Inr s' \<longrightarrow>
        puntos s' = max 0 (puntos s) \<and> jugando s' = (0 < puntos s)"
    using frame_sin_colisiones [of dt s az1 az2 s'] by blast
  from a b c d e f g g' i show ?thesis by (intro conjI)
qed

lemma colision_coincidentes:
  assumes "activo a" and "activo b" and "posicion a = posicion b"
    and "0 \<le> radio a + radio b"
  shows "colision a b"
  using assms by (simp add: colision_def magnitud_def vec_sub_def Vector2D_init_def)

text \<open>
  C3. With the cooldown of 1 s, step 4 (the helper on the tracked enemy, then the loop
  over all enemies) takes 2 points and resets \<open>tiempo_desde_ultimo_dano\<close> to 0 when
  at least 1 s has passed since the last damage and some enemy touches the player, and
  changes nothing otherwise: one deduction at most, however many enemies touch the
  player. In a frame of a running session the score after the projectile passes is not
  below the score before, step 4 lowers it by 0 or by 2, and the final score is that
  value clamped at 0.
\<close>

theorem dano_contacto_una_vez_por_frame:
  assumes "cooldown_dano s = 1"
  shows "colisiones_jugador s =
       (if 1 \<le> tiempo_desde_ultimo_dano s
           \<and> (colision (jugador s) (memoria s (enemigo s))
               \<or> (\<exists>r \<in> set (enemigos s). colision (jugador s) (memoria s r)))
        then s\<lparr>puntos := puntos s - 2, tiempo_desde_ultimo_dano := 0\<rparr> else s)
     \<and> (0 < dt \<and> jugando s \<and> ControlJuego_actualizar s dt az1 az2 = Inr s' \<longrightarrow>
          (\<exists>s2. actualizar_enemigos
                   (s\<lparr>tiempo_desde_ultimo_dano := tiempo_desde_ultimo_dano s + dt\<rparr>) dt
                   (enemigos s) = Inr s2
             \<and> puntos s \<le> puntos (colisiones_proyectiles s2)
             \<and> (puntos (colisiones_jugador (colisiones_proyectiles s2))
                   = puntos (colisiones_proyectiles s2)
                 \<or> puntos (colisiones_jugador (colisiones_proyectiles s2))
                   = puntos (colisiones_proyectiles s2) - 2)
             \<and> puntos s' = max 0 (puntos (colisiones_jugador (colisiones_proyectiles s2)))))"
proof -
  from assms have pos: "0 < cooldown_dano s" by simp
  have a: "colisiones_jugador s =
       (if 1 \<le> tiempo_desde_ultimo_dano s
           \<and> (colision (jugador s) (memoria s (enemigo s))
               \<or> (\<exists>r \<in> set (enemigos s). colision (jugador s) (memoria s r)))
        then s\<lparr>puntos := puntos s - 2, tiempo_desde_ultimo_dano := 0\<rparr> else s)"
    using colisiones_jugador_una_vez [OF pos] assms by (simp add: dano_contacto_def)
  have b: "0 < dt \<and> jugando s \<and> ControlJuego_actualizar s dt az1 az2 = Inr s' \<longrightarrow>
          (\<exists>s2. actualizar_enemigos
                   (s\<lparr>tiempo_desde_ultimo_dano := tiempo_desde_ultimo_dano s + dt\<rparr>) dt
                   (enemigos s) = Inr s2
             \<and> puntos s \<le> puntos (colisiones_proyectiles s2)
             \<and> (puntos (colisiones_jugador (colisiones_proyectiles s2))
                   = puntos (colisiones_proyectiles s2)
                 \<or> puntos (colisiones_jugador (colisiones_proyectiles s2))
                   = puntos (colisiones_proyectiles s2) - 2)
             \<and> puntos s' = max 0 (puntos (colisiones_jugador (colisiones_proyectiles s2))))"
  proof
    assume "0 < dt \<and> jugando s \<and> ControlJuego_actualizar s dt az1 az2 = Inr s'"
    then have "0 < dt" "jugando s" "ControlJuego_actualizar s dt az1 az2 = Inr s'" by simp_all
    from ControlJuego_actualizar_resumen [OF this] obtain s2 where
      s2: "actualizar_enemigos
                (s\<lparr>tiempo_desde_ultimo_dano := tiempo_desde_ultimo_dano s + dt\<rparr>) dt (enemigos s)
              = Inr s2"
      and f: "puntos s2 = puntos s" "cooldown_dano s2 = cooldown_dano s"
      and p: "puntos s' = max 0 (puntos (colisiones_jugador (colisiones_proyectiles s2)))"
      by blast
    from colisiones_proyectiles_campos [of s2] f pos
    have le: "puntos s \<le> puntos (colisiones_proyectiles s2)"
      and cd: "0 < cooldown_dano (colisiones_proyectiles s2)" by simp_all
    from colisiones_jugador_campos [OF cd]
    have "puntos (colisiones_jugador (colisiones_proyectiles s2))
                   = puntos (colisiones_proyectiles s2)
                 \<or> puntos (colisiones_jugador (colisiones_proyectiles s2))
                   = puntos (colisiones_proyectiles s2) - 2" by simp
    with s2 le p show "\<exists>s2. actualizar_enemigos
                   (s\<lparr>tiempo_desde_ultimo_dano := tiempo_desde_ultimo_dano s + dt\<rparr>) dt
                   (enemigos s) = Inr s2
             \<and> puntos s \<le> puntos (colisiones_proyectiles s2)
             \<and> (puntos (colisiones_jugador (colisiones_proyectiles s2))
                   = puntos (colisiones_proyectiles s2)
                 \<or> puntos (colisiones_jugador (colisiones_proyectiles s2))
                   = puntos (colisiones_proyectiles s2) - 2)
             \<and> puntos s' = max 0 (puntos (colisiones_jugador (colisiones_proyectiles s2)))"
      by blast
  qed
  from a b show ?thesis by blast
qed

section \<open>A frame of the example sessions\<close>

lemma enemigo_coincidente_quieto:
  "Enemigo_actualizar (enemigo_ejemplo\<lparr>posicion := Vector2D_init 200 300\<rparr>) (1 / 10)
      jugador_ejemplo = Inr (enemigo_ejemplo\<lparr>posicion := Vector2D_init 200 300\<rparr>)"
  by (simp add: Enemigo_actualizar_def actualizar_invulnerabilidad_def perseguir_objetivo_def
        mantener_en_pantalla_def Let_def enemigo_ejemplo_def jugador_ejemplo_def
        Jugador_init_def pantalla_ejemplo_def Vector2D_init_def vec_sub_def magnitud_def)

lemma sesion_contacto_campos:
  "memoria sesion_contacto = (\<lambda>_. enemigo_ejemplo\<lparr>posicion := Vector2D_init 200 300\<rparr>)"
  "jugador sesion_contacto = jugador_ejemplo"
  "enemigos sesion_contacto = [0, 1]"
  "enemigo sesion_contacto = 1"
  "cooldown_dano sesion_contacto = 1"
  "tiempo_desde_ultimo_dano sesion_contacto = 1"
  "jugando sesion_contacto"
  "tiempo_enemigo sesion_contacto = 0"
  "intervalo_enemigo sesion_contacto = 5"
  "puntos sesion_contacto = 10"
  by (simp_all add: sesion_contacto_def sesion_ejemplo_def)

lemma enemigo_toca_jugador:
  "colision jugador_ejemplo (enemigo_ejemplo\<lparr>posicion := Vector2D_init 200 300\<rparr>)"
  by (rule colision_coincidentes)
     (simp_all add: jugador_ejemplo_def Jugador_init_def enemigo_ejemplo_def)

lemma actualizar_enemigos_quietos:
  assumes m: "memoria s = (\<lambda>_. enemigo_ejemplo\<lparr>posicion := Vector2D_init 200 300\<rparr>)"
    and j: "jugador s = jugador_ejemplo"
  shows "actualizar_enemigos s (1 / 10) rs = Inr s"
proof (induction rs)
  case Nil
  show ?case by simp
next
  case (Cons r rs)
  let ?e = "enemigo_ejemplo\<lparr>posicion := Vector2D_init 200 300\<rparr>"
  have mr: "memoria s r = ?e" by (simp only: m)
  have act: "activo (memoria s r)" unfolding mr by (simp add: enemigo_ejemplo_def)
  have upd: "Enemigo_actualizar (memoria s r) (1 / 10) (jugador s) = Inr ?e"
    unfolding mr j by (rule enemigo_coincidente_quieto)
  have "(memoria s)(r := ?e) = memoria s" unfolding m by auto
  then have same: "s\<lparr>memoria := (memoria s)(r := ?e)\<rparr> = s" by simp
  show ?case
    by (simp only: actualizar_enemigos.simps act upd same Cons.IH if_True sum.case)
qed

lemma ControlJuego_actualizar_compuesto:
  assumes "0 < dt" and "jugando s"
    and "actualizar_enemigos
           (s\<lparr>tiempo_desde_ultimo_dano := tiempo_desde_ultimo_dano s + dt\<rparr>) dt (enemigos s)
         = Inr s2"
    and "respawn_si_destruido (colisiones_jugador (colisiones_proyectiles s2)) az1 = Inr s5"
    and "enemigo_por_tiempo (eliminar_inactivos (verificar_fin_del_juego s5)) dt az2 = Inr s'"
  shows "ControlJuego_actualizar s dt az1 az2 = Inr s'"
  using assms by (simp add: ControlJuego_actualizar_def Let_def)

lemma sesion_contacto_frame:
  "ControlJuego_actualizar (sesion_contacto\<lparr>puntos := k\<rparr>) (1 / 10) az1 az2 =
     Inr (sesion_contacto\<lparr>puntos := max 0 (k - 2), jugando := 0 < k - 2,
            tiempo_desde_ultimo_dano := 0, tiempo_enemigo := 1 / 10\<rparr>)"
proof -
  let ?e = "enemigo_ejemplo\<lparr>posicion := Vector2D_init 200 300\<rparr>"
  let ?s = "sesion_contacto\<lparr>puntos := k\<rparr>"
  let ?s1 = "sesion_contacto\<lparr>puntos := k, tiempo_desde_ultimo_dano := 11 / 10\<rparr>"
  have s1: "?s\<lparr>tiempo_desde_ultimo_dano := tiempo_desde_ultimo_dano ?s + 1 / 10\<rparr> = ?s1"
    by (simp add: sesion_contacto_campos)
  have act: "activo ?e" by (simp add: enemigo_ejemplo_def)
  have b: "colisiones_proyectiles ?s1 = ?s1"
    by (rule colisiones_proyectiles_sin_proyectiles)
       (simp add: sesion_contacto_campos jugador_ejemplo_def Jugador_init_def)
  have cd: "0 < cooldown_dano ?s1" by (simp add: sesion_contacto_campos)
  have c: "colisiones_jugador ?s1 = ?s\<lparr>puntos := k - 2, tiempo_desde_ultimo_dano := 0\<rparr>"
    unfolding colisiones_jugador_una_vez [OF cd]
    by (simp add: sesion_contacto_campos enemigo_toca_jugador dano_contacto_def)
  let ?s4 = "?s\<lparr>puntos := k - 2, tiempo_desde_ultimo_dano := 0\<rparr>"
  have d: "respawn_si_destruido ?s4 az1 = Inr ?s4"
    by (simp add: respawn_si_destruido_def sesion_contacto_campos act)
  have e: "eliminar_inactivos (verificar_fin_del_juego ?s4) =
      ?s\<lparr>puntos := max 0 (k - 2), jugando := 0 < k - 2, tiempo_desde_ultimo_dano := 0\<rparr>"
    by (simp add: eliminar_inactivos_def verificar_fin_del_juego_def sesion_contacto_campos act
          max_def)
  have f: "enemigo_por_tiempo
      (?s\<lparr>puntos := max 0 (k - 2), jugando := 0 < k - 2, tiempo_desde_ultimo_dano := 0\<rparr>)
      (1 / 10) az2 =
     Inr (?s\<lparr>puntos := max 0 (k - 2), jugando := 0 < k - 2, tiempo_desde_ultimo_dano := 0,
             tiempo_enemigo := 1 / 10\<rparr>)"
    by (simp add: enemigo_por_tiempo_def Let_def sesion_contacto_campos)
  let ?x = "?s\<lparr>tiempo_desde_ultimo_dano := tiempo_desde_ultimo_dano ?s + 1 / 10\<rparr>"
  have p0: "(0::real) < 1 / 10" "jugando ?s" by (simp_all add: sesion_contacto_campos)
  have p1: "actualizar_enemigos ?x (1 / 10) (enemigos ?s) = Inr ?x"
    by (rule actualizar_enemigos_quietos) (simp_all add: sesion_contacto_campos)
  have p2: "respawn_si_destruido (colisiones_jugador (colisiones_proyectiles ?x)) az1 = Inr ?s4"
    by (simp only: s1 b c d)
  have p3: "enemigo_por_tiempo (eliminar_inactivos (verificar_fin_del_juego ?s4)) (1 / 10) az2 =
     Inr (?s\<lparr>puntos := max 0 (k - 2), jugando := 0 < k - 2, tiempo_desde_ultimo_dano := 0,
             tiempo_enemigo := 1 / 10\<rparr>)"
    by (simp only: e f)
  from ControlJuego_actualizar_compuesto [OF p0 p1 p2 p3]
  have "ControlJuego_actualizar ?s (1 / 10) az1 az2 =
     Inr (?s\<lparr>puntos := max 0 (k - 2), jugando := 0 < k - 2, tiempo_desde_ultimo_dano := 0,
             tiempo_enemigo := 1 / 10\<rparr>)" .
  then show ?thesis by simp
qed

text \<open>C5 on the example sessions: a call with \<open>dt = 0\<close>, a call on a stopped
  session, a frame of the new session (which keeps its 10 points and runs on), a frame
  that takes the last 2 points and ends the game, a frame that takes 2 of 10 points and
  runs on, and the end-of-game check on a score of 10 and on a score of -2.\<close>

theorem puntos_y_fin_del_juego_witness:
  "ControlJuego_actualizar sesion_ejemplo 0 sorteo_ejemplo sorteo_ejemplo = Inl ValueError
   \<and> ControlJuego_actualizar (sesion_ejemplo\<lparr>jugando := False\<rparr>) (1 / 10) sorteo_ejemplo
         sorteo_ejemplo = Inr (sesion_ejemplo\<lparr>jugando := False\<rparr>)
   \<and> (\<exists>s'. ControlJuego_actualizar sesion_ejemplo (1 / 10) sorteo_ejemplo sorteo_ejemplo = Inr s'
          \<and> 0 \<le> puntos s' \<and> jugando s' = (puntos s' \<noteq> 0)
          \<and> puntos s' = 10 \<and> jugando s')
   \<and> (\<exists>s0. ControlJuego_init pantalla_ejemplo = Inr s0 \<and> puntos s0 = 10 \<and> jugando s0)
   \<and> (\<exists>s'. ControlJuego_actualizar (sesion_contacto\<lparr>puntos := 2\<rparr>) (1 / 10) sorteo_ejemplo
            sorteo_ejemplo = Inr s'
          \<and> puntos s' = 0 \<and> \<not> jugando s')
   \<and> (\<exists>s'. ControlJuego_actualizar sesion_contacto (1 / 10) sorteo_ejemplo sorteo_ejemplo
            = Inr s'
          \<and> puntos s' = 8 \<and> jugando s')
   \<and> puntos (verificar_fin_del_juego sesion_ejemplo) = 10
   \<and> jugando (verificar_fin_del_juego sesion_ejemplo)
   \<and> puntos (verificar_fin_del_juego (sesion_ejemplo\<lparr>puntos := - 2\<rparr>)) = 0
   \<and> \<not> jugando (verificar_fin_del_juego (sesion_ejemplo\<lparr>puntos := - 2\<rparr>))"
proof -
  note t = puntos_y_fin_del_juego
  let ?z = "(1 / 10) :: real"
  have z: "(0::real) \<le> 0" by simp
  have c1: "ControlJuego_actualizar sesion_ejemplo 0 sorteo_ejemplo sorteo_ejemplo
      = Inl ValueError"
    by (rule t [of pantalla_ejemplo 0 sesion_ejemplo sorteo_ejemplo sorteo_ejemplo,
        THEN conjunct2, THEN conjunct1, THEN mp, OF z])
  have pre: "0 < ?z" "jugando sesion_ejemplo"
    "100 \<le> ancho (pantalla_juego sesion_ejemplo)" "100 \<le> alto (pantalla_juego sesion_ejemplo)"
    "0 < sorteo_radio sorteo_ejemplo"
    "proyectiles (jugador sesion_ejemplo) = []"
    "tiempo_desde_ultimo_dano sesion_ejemplo + ?z < cooldown_dano sesion_ejemplo"
    "puntos sesion_ejemplo = 10"
    by (simp_all add: sesion_ejemplo_def pantalla_ejemplo_def sorteo_ejemplo_def
          jugador_ejemplo_def Jugador_init_def)
  have nj: "0 < ?z \<and> \<not> jugando (sesion_ejemplo\<lparr>jugando := False\<rparr>)" by simp
  have c2: "ControlJuego_actualizar (sesion_ejemplo\<lparr>jugando := False\<rparr>) ?z sorteo_ejemplo
         sorteo_ejemplo = Inr (sesion_ejemplo\<lparr>jugando := False\<rparr>)"
    by (rule t [of pantalla_ejemplo ?z "sesion_ejemplo\<lparr>jugando := False\<rparr>"
        sorteo_ejemplo sorteo_ejemplo, THEN conjunct2, THEN conjunct2, THEN conjunct1,
        THEN mp, OF nj])
  have tot: "0 < ?z \<and> 100 \<le> ancho (pantalla_juego sesion_ejemplo)
      \<and> 100 \<le> alto (pantalla_juego sesion_ejemplo)
      \<and> 0 < sorteo_radio sorteo_ejemplo \<and> 0 < sorteo_radio sorteo_ejemplo"
    using pre by (intro conjI)
  from t [of pantalla_ejemplo ?z sesion_ejemplo sorteo_ejemplo sorteo_ejemplo,
      THEN conjunct2, THEN conjunct2, THEN conjunct2, THEN conjunct2, THEN conjunct1,
      THEN mp, OF tot]
  obtain s' where s': "ControlJuego_actualizar sesion_ejemplo ?z sorteo_ejemplo
      sorteo_ejemplo = Inr s'" ..
  have run: "0 < ?z \<and> jugando sesion_ejemplo
      \<and> ControlJuego_actualizar sesion_ejemplo ?z sorteo_ejemplo sorteo_ejemplo = Inr s'"
    using pre(1,2) s' by (intro conjI)
  have c3a: "0 \<le> puntos s' \<and> jugando s' = (puntos s' \<noteq> 0)"
    by (rule t [of pantalla_ejemplo ?z sesion_ejemplo sorteo_ejemplo sorteo_ejemplo s',
        THEN conjunct2, THEN conjunct2, THEN conjunct2, THEN conjunct1, THEN mp, OF run])
  have quiet: "0 < ?z \<and> jugando sesion_ejemplo \<and> proyectiles (jugador sesion_ejemplo) = []
      \<and> tiempo_desde_ultimo_dano sesion_ejemplo + ?z < cooldown_dano sesion_ejemplo
      \<and> ControlJuego_actualizar sesion_ejemplo ?z sorteo_ejemplo sorteo_ejemplo = Inr s'"
    using pre(1,2,6,7) s' by (intro conjI)
  have "puntos s' = max 0 (puntos sesion_ejemplo) \<and> jugando s' = (0 < puntos sesion_ejemplo)"
    by (rule t [of pantalla_ejemplo ?z sesion_ejemplo sorteo_ejemplo sorteo_ejemplo s',
        THEN conjunct2, THEN conjunct2, THEN conjunct2, THEN conjunct2, THEN conjunct2,
        THEN conjunct2, THEN conjunct2, THEN conjunct2, THEN mp, OF quiet])
  then have c3b: "puntos s' = 10 \<and> jugando s'" by (simp add: pre(8))
  have c3: "\<exists>s'. ControlJuego_actualizar sesion_ejemplo ?z sorteo_ejemplo sorteo_ejemplo = Inr s'
          \<and> 0 \<le> puntos s' \<and> jugando s' = (puntos s' \<noteq> 0)
          \<and> puntos s' = 10 \<and> jugando s'"
    using s' c3a c3b by (intro exI [of _ s']) simp
  have c4: "\<exists>s0. ControlJuego_init pantalla_ejemplo = Inr s0 \<and> puntos s0 = 10 \<and> jugando s0"
    by (rule t [of pantalla_ejemplo, THEN conjunct1])
  let ?fin = "sesion_contacto\<lparr>puntos := max 0 (2 - 2), jugando := (0::int) < 2 - 2,
      tiempo_desde_ultimo_dano := 0, tiempo_enemigo := 1 / 10\<rparr>"
  have fr: "ControlJuego_actualizar (sesion_contacto\<lparr>puntos := 2\<rparr>) ?z sorteo_ejemplo
      sorteo_ejemplo = Inr ?fin"
    by (rule sesion_contacto_frame)
  have run2: "0 < ?z \<and> jugando (sesion_contacto\<lparr>puntos := 2\<rparr>)
      \<and> ControlJuego_actualizar (sesion_contacto\<lparr>puntos := 2\<rparr>) ?z sorteo_ejemplo
          sorteo_ejemplo = Inr ?fin"
    using fr by (simp add: sesion_contacto_campos)
  have "0 \<le> puntos ?fin \<and> jugando ?fin = (puntos ?fin \<noteq> 0)"
    by (rule t [of pantalla_ejemplo ?z "sesion_contacto\<lparr>puntos := 2\<rparr>" sorteo_ejemplo
        sorteo_ejemplo ?fin,
        THEN conjunct2, THEN conjunct2, THEN conjunct2, THEN conjunct1, THEN mp, OF run2])
  then have "puntos ?fin = 0 \<and> \<not> jugando ?fin" by simp
  with fr have c5: "\<exists>s'. ControlJuego_actualizar (sesion_contacto\<lparr>puntos := 2\<rparr>) ?z
      sorteo_ejemplo sorteo_ejemplo = Inr s' \<and> puntos s' = 0 \<and> \<not> jugando s'"
    by (intro exI [of _ ?fin] conjI) simp_all
  let ?och = "sesion_contacto\<lparr>puntos := max 0 (10 - 2), jugando := (0::int) < 10 - 2,
      tiempo_desde_ultimo_dano := 0, tiempo_enemigo := 1 / 10\<rparr>"
  have s10: "sesion_contacto\<lparr>puntos := 10\<rparr> = sesion_contacto"
    by (simp add: sesion_contacto_def sesion_ejemplo_def)
  have fr8: "ControlJuego_actualizar sesion_contacto ?z sorteo_ejemplo sorteo_ejemplo = Inr ?och"
    using sesion_contacto_frame [of 10 sorteo_ejemplo sorteo_ejemplo] unfolding s10 .
  have c6: "\<exists>s'. ControlJuego_actualizar sesion_contacto ?z sorteo_ejemplo sorteo_ejemplo
            = Inr s' \<and> puntos s' = 8 \<and> jugando s'"
    using fr8 by (intro exI [of _ ?och] conjI) simp_all
  have c7: "puntos (verificar_fin_del_juego sesion_ejemplo) = 10"
    "jugando (verificar_fin_del_juego sesion_ejemplo)"
    using t [of pantalla_ejemplo ?z sesion_ejemplo sorteo_ejemplo sorteo_ejemplo s',
        THEN conjunct2, THEN conjunct2, THEN conjunct2, THEN conjunct2, THEN conjunct2,
        THEN conjunct2] pre(2,8)
    by simp_all
  have c8: "puntos (verificar_fin_del_juego (sesion_ejemplo\<lparr>puntos := - 2\<rparr>)) = 0"
    "\<not> jugando (verificar_fin_del_juego (sesion_ejemplo\<lparr>puntos := - 2\<rparr>))"
    using t [of pantalla_ejemplo ?z "sesion_ejemplo\<lparr>puntos := - 2\<rparr>" sorteo_ejemplo
        sorteo_ejemplo s',
        THEN conjunct2, THEN conjunct2, THEN conjunct2, THEN conjunct2, THEN conjunct2,
        THEN conjunct2]
    by simp_all
  from c1 c2 c3 c4 c5 c6 c7 c8 show ?thesis by (intro conjI)
qed

theorem dano_contacto_una_vez_por_frame_witness:
  "cooldown_dano sesion_contacto = 1
   \<and> colision (jugador sesion_contacto) (memoria sesion_contacto 0)
   \<and> colision (jugador sesion_contacto) (memoria sesion_contacto 1)
   \<and> colisiones_jugador sesion_contacto =
       sesion_contacto\<lparr>puntos := 8, tiempo_desde_ultimo_dano := 0\<rparr>
   \<and> ControlJuego_actualizar sesion_contacto (1 / 10) sorteo_ejemplo sorteo_ejemplo =
       Inr (sesion_contacto\<lparr>puntos := 8, tiempo_desde_ultimo_dano := 0,
              tiempo_enemigo := 1 / 10\<rparr>)
   \<and> (\<exists>s2. actualizar_enemigos
               (sesion_contacto\<lparr>tiempo_desde_ultimo_dano :=
                   tiempo_desde_ultimo_dano sesion_contacto + 1 / 10\<rparr>) (1 / 10)
               (enemigos sesion_contacto) = Inr s2
          \<and> puntos sesion_contacto \<le> puntos (colisiones_proyectiles s2)
          \<and> (8::int) = max 0 (puntos (colisiones_jugador (colisiones_proyectiles s2))))"
proof -
  have cd: "cooldown_dano sesion_contacto = 1" by (simp add: sesion_contacto_campos)
  have t: "1 \<le> tiempo_desde_ultimo_dano sesion_contacto" by (simp add: sesion_contacto_campos)
  have c0: "colision (jugador sesion_contacto) (memoria sesion_contacto 0)"
    and c1: "colision (jugador sesion_contacto) (memoria sesion_contacto 1)"
    by (simp_all add: sesion_contacto_campos enemigo_toca_jugador)
  have ce: "colision (jugador sesion_contacto) (memoria sesion_contacto (enemigo sesion_contacto))"
    by (simp add: sesion_contacto_campos enemigo_toca_jugador)
  from dano_contacto_una_vez_por_frame [OF cd] t ce
  have paso4: "colisiones_jugador sesion_contacto =
      sesion_contacto\<lparr>puntos := puntos sesion_contacto - 2, tiempo_desde_ultimo_dano := 0\<rparr>"
    by simp
  then have paso4': "colisiones_jugador sesion_contacto =
      sesion_contacto\<lparr>puntos := 8, tiempo_desde_ultimo_dano := 0\<rparr>"
    by (simp add: sesion_contacto_campos)
  have "sesion_contacto\<lparr>puntos := 10\<rparr> = sesion_contacto"
    by (simp add: sesion_contacto_def sesion_ejemplo_def)
  with sesion_contacto_frame [of 10 sorteo_ejemplo sorteo_ejemplo]
  have fr: "ControlJuego_actualizar sesion_contacto (1 / 10) sorteo_ejemplo sorteo_ejemplo =
       Inr (sesion_contacto\<lparr>puntos := 8, tiempo_desde_ultimo_dano := 0,
              tiempo_enemigo := 1 / 10\<rparr>)"
    by (simp add: sesion_contacto_def sesion_ejemplo_def)
  have pre: "(0::real) < 1 / 10 \<and> jugando sesion_contacto
      \<and> ControlJuego_actualizar sesion_contacto (1 / 10) sorteo_ejemplo sorteo_ejemplo =
       Inr (sesion_contacto\<lparr>puntos := 8, tiempo_desde_ultimo_dano := 0,
              tiempo_enemigo := 1 / 10\<rparr>)"
    using fr by (simp add: sesion_contacto_campos)
  from dano_contacto_una_vez_por_frame [OF cd, of "1 / 10" sorteo_ejemplo sorteo_ejemplo
      "sesion_contacto\<lparr>puntos := 8, tiempo_desde_ultimo_dano := 0, tiempo_enemigo := 1 / 10\<rparr>"]
    pre
  obtain s2 where "actualizar_enemigos
               (sesion_contacto\<lparr>tiempo_desde_ultimo_dano :=
                   tiempo_desde_ultimo_dano sesion_contacto + 1 / 10\<rparr>) (1 / 10)
               (enemigos sesion_contacto) = Inr s2"
    "puntos sesion_contacto \<le> puntos (colisiones_proyectiles s2)"
    "puntos (sesion_contacto\<lparr>puntos := 8, tiempo_desde_ultimo_dano := 0,
        tiempo_enemigo := 1 / 10\<rparr>)
      = max 0 (puntos (colisiones_jugador (colisiones_proyectiles s2)))"
    by blast
  then have ex: "\<exists>s2. actualizar_enemigos
               (sesion_contacto\<lparr>tiempo_desde_ultimo_dano :=
                   tiempo_desde_ultimo_dano sesion_contacto + 1 / 10\<rparr>) (1 / 10)
               (enemigos sesion_contacto) = Inr s2
          \<and> puntos sesion_contacto \<le> puntos (colisiones_proyectiles s2)
          \<and> (8::int) = max 0 (puntos (colisiones_jugador (colisiones_proyectiles s2)))"
    by auto
  from cd c0 c1 paso4' fr ex show ?thesis by blast
qed

lemma magnitud_250: "magnitud \<lparr>comp_x = - 200, comp_y = 150\<rparr> = 250"
  by (rule magnitud_eqI) simp_all

lemma magnitud_240: "magnitud \<lparr>comp_x = - 192, comp_y = 144\<rparr> = 240"
  by (rule magnitud_eqI) simp_all

lemma enemigo_ejemplo_avanza:
  assumes "posicion jug = Vector2D_init 200 300" and "activo jug"
  shows "Enemigo_actualizar enemigo_ejemplo (1 / 10) jug =
     Inr (enemigo_ejemplo\<lparr>posicion := Vector2D_init 392 156\<rparr>)"
  using assms
  by (simp add: Enemigo_actualizar_def actualizar_invulnerabilidad_def perseguir_objetivo_def
        mantener_en_pantalla_def normalizar_def Let_def enemigo_ejemplo_def
        pantalla_ejemplo_def Vector2D_init_def vec_sub_def vec_add_def vec_mul_def
        magnitud_250)

lemma proyectil_lejos_1: "\<not> colision proyectil_ejemplo enemigo_ejemplo"
  by (simp add: colision_def proyectil_ejemplo_def enemigo_ejemplo_def Let_def
        Vector2D_init_def vec_sub_def magnitud_250)

lemma proyectil_lejos_2:
  "\<not> colision proyectil_ejemplo (enemigo_ejemplo\<lparr>posicion := Vector2D_init 392 156\<rparr>)"
  by (simp add: colision_def proyectil_ejemplo_def enemigo_ejemplo_def Let_def
        Vector2D_init_def vec_sub_def magnitud_240)

lemma jugador_lejos:
  "\<not> colision (jugador_ejemplo\<lparr>proyectiles := ps\<rparr>)
       (enemigo_ejemplo\<lparr>posicion := Vector2D_init 392 156\<rparr>)"
  by (simp add: colision_def jugador_ejemplo_def Jugador_init_def enemigo_ejemplo_def Let_def
        Vector2D_init_def vec_sub_def magnitud_240)

lemma sesion_con_proyectil_campos:
  "memoria sesion_con_proyectil = (\<lambda>_. enemigo_ejemplo)"
  "jugador sesion_con_proyectil = jugador_ejemplo\<lparr>proyectiles := [proyectil_ejemplo]\<rparr>"
  "enemigos sesion_con_proyectil = [0]"
  "enemigo sesion_con_proyectil = 0"
  "cooldown_dano sesion_con_proyectil = 1"
  "tiempo_desde_ultimo_dano sesion_con_proyectil = 0"
  "jugando sesion_con_proyectil"
  "tiempo_enemigo sesion_con_proyectil = 0"
  "intervalo_enemigo sesion_con_proyectil = 5"
  "puntos sesion_con_proyectil = 10"
  by (simp_all add: sesion_con_proyectil_def sesion_ejemplo_def)

lemma sesion_con_proyectil_frame:
  "ControlJuego_actualizar sesion_con_proyectil (1 / 10) az1 az2 =
     Inr (sesion_con_proyectil
            \<lparr>tiempo_desde_ultimo_dano := 1 / 10,
              memoria := (\<lambda>_. enemigo_ejemplo)
                 (0 := enemigo_ejemplo\<lparr>posicion := Vector2D_init 392 156\<rparr>),
              jugador := jugador_ejemplo
                 \<lparr>proyectiles := [proyectil_ejemplo\<lparr>activo := False\<rparr>]\<rparr>,
              tiempo_enemigo := 1 / 10\<rparr>)"
proof -
  let ?e = "enemigo_ejemplo\<lparr>posicion := Vector2D_init 392 156\<rparr>"
  let ?j = "jugador_ejemplo\<lparr>proyectiles := [proyectil_ejemplo]\<rparr>"
  let ?s = "sesion_con_proyectil"
  let ?x = "?s\<lparr>tiempo_desde_ultimo_dano := tiempo_desde_ultimo_dano ?s + 1 / 10\<rparr>"
  let ?s2 = "?s\<lparr>tiempo_desde_ultimo_dano := 1 / 10,
      memoria := (\<lambda>_. enemigo_ejemplo)(0 := ?e)\<rparr>"
  let ?s3 = "?s2\<lparr>jugador := jugador_ejemplo
      \<lparr>proyectiles := [proyectil_ejemplo\<lparr>activo := False\<rparr>]\<rparr>\<rparr>"
  have p0: "(0::real) < 1 / 10" "jugando ?s" by (simp_all add: sesion_con_proyectil_campos)
  have act: "activo enemigo_ejemplo" by (simp add: enemigo_ejemplo_def)
  have jp: "posicion ?j = Vector2D_init 200 300" "activo ?j"
    by (simp_all add: jugador_ejemplo_def Jugador_init_def)
  have upd: "Enemigo_actualizar enemigo_ejemplo (1 / 10) ?j = Inr ?e"
    using jp by (rule enemigo_ejemplo_avanza)
  have p1: "actualizar_enemigos ?x (1 / 10) (enemigos ?s) = Inr ?s2"
    by (simp add: sesion_con_proyectil_campos act upd)
  have m2: "memoria ?s2 (enemigo ?s2) = ?e" "memoria ?s2 0 = ?e" "jugador ?s2 = ?j"
    "enemigos ?s2 = [0]"
    by (simp_all add: sesion_con_proyectil_campos)
  have v: "verificar_colisiones_proyectiles ?s2 = ?s2"
    by (simp add: verificar_colisiones_proyectiles_def cuerpo_enemigo_principal_def
          m2 proyectil_lejos_2)
       (simp add: sesion_con_proyectil_def sesion_ejemplo_def)
  have b: "cuerpo_todos_los_enemigos ?s2 proyectil_ejemplo =
      (?s2, proyectil_ejemplo\<lparr>activo := False\<rparr>)"
    by (simp add: cuerpo_todos_los_enemigos_def m2 proyectil_lejos_2 Let_def)
  have c: "colisiones_proyectiles ?s2 = ?s3"
    by (simp add: colisiones_proyectiles_def Let_def v m2 b)
  have cd: "0 < cooldown_dano ?s3" by (simp add: sesion_con_proyectil_campos)
  have d: "colisiones_jugador ?s3 = ?s3"
    unfolding colisiones_jugador_una_vez [OF cd]
    by (simp add: sesion_con_proyectil_campos)
  have e: "respawn_si_destruido ?s3 az1 = Inr ?s3"
    by (simp add: respawn_si_destruido_def sesion_con_proyectil_campos act)
  have p2: "respawn_si_destruido (colisiones_jugador (colisiones_proyectiles ?s2)) az1 = Inr ?s3"
    by (simp only: c d e)
  have f: "eliminar_inactivos (verificar_fin_del_juego ?s3) = ?s3"
    by (simp add: eliminar_inactivos_def verificar_fin_del_juego_def
          sesion_con_proyectil_campos act)
  have g: "enemigo_por_tiempo ?s3 (1 / 10) az2 = Inr (?s3\<lparr>tiempo_enemigo := 1 / 10\<rparr>)"
    by (simp add: enemigo_por_tiempo_def Let_def sesion_con_proyectil_campos)
  have p3: "enemigo_por_tiempo (eliminar_inactivos (verificar_fin_del_juego ?s3)) (1 / 10) az2
      = Inr (?s3\<lparr>tiempo_enemigo := 1 / 10\<rparr>)"
    by (simp only: f g)
  from ControlJuego_actualizar_compuesto [OF p0 p1 p2 p3]
  show ?thesis .
qed

section \<open>The player and its projectiles in a frame\<close>

lemma ControlJuego_actualizar_jugador:
  assumes "0 < dt" and "jugando s" and "ControlJuego_actualizar s dt az1 az2 = Inr s'"
  shows "jugador s' = (jugador s)\<lparr>proyectiles := proyectiles (jugador s')\<rparr>
     \<and> list_all2 desactivado_o_igual (proyectiles (jugador s)) (proyectiles (jugador s'))"
proof -
  from ControlJuego_actualizar_resumen [OF assms] obtain s2 where
    j2: "jugador s2 = jugador s"
    and j': "jugador s' = jugador (colisiones_jugador (colisiones_proyectiles s2))"
    by blast
  from j' colisiones_jugador_jugando [of "colisiones_proyectiles s2"]
  have "jugador s' = jugador (colisiones_proyectiles s2)" by simp
  with colisiones_proyectiles_campos [of s2] j2 show ?thesis by simp
qed

lemma jugador_ejemplo_actualizado:
  "Jugador_actualizar jugador_ejemplo (1 / 2) (700, 500) =
     Inr (jugador_ejemplo\<lparr>posicion := \<lparr>comp_x = 250, comp_y = 320\<rparr>, ultimo_disparo := 1 / 2\<rparr>)"
  by (simp add: Jugador_actualizar_def actualizar_proyectiles_def mover_hacia_mouse_def
        mantener_en_pantalla_def Let_def jugador_ejemplo_def Jugador_init_def
        pantalla_ejemplo_def Vector2D_init_def vec_sub_def vec_add_def vec_mul_def)

text \<open>
  C1. Specified: every frame of a running session runs the player's update with the
  frame's \<open>dt\<close>. \<open>ControlJuego.actualizar\<close> does not: on the new session, a
  frame of half a second leaves the player as it was, \<open>ultimo_disparo\<close> at 0 and the
  position at (200, 300), while \<open>Jugador.actualizar\<close> with that \<open>dt\<close> and the
  cursor at (700, 500) gives \<open>ultimo_disparo = 0.5\<close> and the position (250, 320).
\<close>

theorem jugador_sin_actualizar_en_frame:
  "(\<exists>s'. ControlJuego_actualizar sesion_ejemplo (1 / 2) sorteo_ejemplo sorteo_ejemplo = Inr s'
       \<and> jugador s' = jugador sesion_ejemplo
       \<and> ultimo_disparo (jugador s') = 0
       \<and> posicion (jugador s') = Vector2D_init 200 300)
   \<and> (\<exists>j. Jugador_actualizar (jugador sesion_ejemplo) (1 / 2) (700, 500) = Inr j
       \<and> ultimo_disparo j = 1 / 2
       \<and> posicion j = Vector2D_init 250 320)"
proof -
  have pre: "(0::real) < 1 / 2" "jugando sesion_ejemplo"
    "100 \<le> ancho (pantalla_juego sesion_ejemplo)" "100 \<le> alto (pantalla_juego sesion_ejemplo)"
    "0 < sorteo_radio sorteo_ejemplo"
    by (simp_all add: sesion_ejemplo_def pantalla_ejemplo_def sorteo_ejemplo_def)
  from ControlJuego_actualizar_ok [OF pre(1) pre(3) pre(4) pre(5) pre(5)]
  obtain s' where s': "ControlJuego_actualizar sesion_ejemplo (1 / 2) sorteo_ejemplo
      sorteo_ejemplo = Inr s'" by blast
  have j0: "jugador sesion_ejemplo = jugador_ejemplo" by (simp add: sesion_ejemplo_def)
  have p0: "proyectiles jugador_ejemplo = []" "ultimo_disparo jugador_ejemplo = 0"
    "posicion jugador_ejemplo = Vector2D_init 200 300"
    by (simp_all add: jugador_ejemplo_def Jugador_init_def)
  note both = ControlJuego_actualizar_jugador [OF pre(1) pre(2) s', unfolded j0]
  from both have q: "jugador s' = jugador_ejemplo\<lparr>proyectiles := proyectiles (jugador s')\<rparr>"
    by (rule conjunct1)
  from both have "list_all2 desactivado_o_igual (proyectiles jugador_ejemplo)
      (proyectiles (jugador s'))" by (rule conjunct2)
  then have e: "proyectiles (jugador s') = []" by (simp add: p0(1))
  have "jugador s' = jugador_ejemplo\<lparr>proyectiles := []\<rparr>"
    by (subst q) (simp only: e)
  also have "\<dots> = jugador_ejemplo"
    by (simp add: jugador_ejemplo_def Jugador_init_def)
  finally have "jugador s' = jugador_ejemplo" .
  then have js: "jugador s' = jugador_ejemplo" by simp
  have a: "\<exists>s'. ControlJuego_actualizar sesion_ejemplo (1 / 2) sorteo_ejemplo sorteo_ejemplo
        = Inr s'
       \<and> jugador s' = jugador sesion_ejemplo
       \<and> ultimo_disparo (jugador s') = 0
       \<and> posicion (jugador s') = Vector2D_init 200 300"
    using s' js j0 p0 by auto
  have b: "\<exists>j. Jugador_actualizar (jugador sesion_ejemplo) (1 / 2) (700, 500) = Inr j
       \<and> ultimo_disparo j = 1 / 2
       \<and> posicion j = Vector2D_init 250 320"
    by (simp add: j0 jugador_ejemplo_actualizado Vector2D_init_def)
  from a b show ?thesis by blast
qed

lemma jugador_con_proyectil:
  "aplicar_llamadas_jugador jugador_ejemplo
      [Llamar_actualizar_jugador (1 / 2) (200, 300), Llamar_disparar (200, 400)]
   = jugador_ejemplo\<lparr>proyectiles := [proyectil_ejemplo]\<rparr>"
proof -
  have a: "Jugador_actualizar jugador_ejemplo (1 / 2) (200, 300) =
      Inr (jugador_ejemplo\<lparr>ultimo_disparo := 1 / 2\<rparr>)"
    by (simp add: Jugador_actualizar_def actualizar_proyectiles_def mover_hacia_mouse_def
        mantener_en_pantalla_def Let_def jugador_ejemplo_def Jugador_init_def
        pantalla_ejemplo_def Vector2D_init_def vec_sub_def vec_add_def vec_mul_def)
  have n: "normalizar \<lparr>comp_x = 0, comp_y = 100\<rparr> = \<lparr>comp_x = 0, comp_y = 1\<rparr>"
    by (simp add: normalizar_def Let_def magnitud_100 Vector2D_init_def)
  have b: "disparar (jugador_ejemplo\<lparr>ultimo_disparo := 1 / 2\<rparr>) (200, 400) =
      Inr (True, jugador_ejemplo\<lparr>proyectiles := [proyectil_ejemplo]\<rparr>)"
    by (simp add: disparar_def Proyectil_init_def Let_def jugador_ejemplo_def Jugador_init_def
          proyectil_ejemplo_def Vector2D_init_def n)
  show ?thesis
    by (simp add: aplicar_llamadas_jugador_def a b)
qed

text \<open>
  C2. Specified: the collision pass deactivates a projectile only when it collides
  with an enemy. The loop over all enemies deactivates it whenever the list of
  enemies is not empty: the projectile fired from (200, 300) is in the window, has its
  2 s to live and touches no enemy before or after the frame, no hit is scored, and one
  frame of 0.1 s leaves it inactive.
\<close>

theorem proyectil_desactivado_sin_colision:
  "aplicar_llamadas_jugador jugador_ejemplo
      [Llamar_actualizar_jugador (1 / 2) (200, 300), Llamar_disparar (200, 400)]
     = jugador sesion_con_proyectil
   \<and> proyectiles (jugador sesion_con_proyectil) = [proyectil_ejemplo]
   \<and> verificar_desactivacion proyectil_ejemplo = proyectil_ejemplo
   \<and> (\<exists>s'. ControlJuego_actualizar sesion_con_proyectil (1 / 10) sorteo_ejemplo sorteo_ejemplo
            = Inr s'
          \<and> proyectiles (jugador s') = [proyectil_ejemplo\<lparr>activo := False\<rparr>]
          \<and> puntos s' = puntos sesion_con_proyectil
          \<and> (\<forall>r. \<not> colision proyectil_ejemplo (memoria sesion_con_proyectil r))
          \<and> (\<forall>r. \<not> colision proyectil_ejemplo (memoria s' r)))"
proof -
  have a: "aplicar_llamadas_jugador jugador_ejemplo
      [Llamar_actualizar_jugador (1 / 2) (200, 300), Llamar_disparar (200, 400)]
     = jugador sesion_con_proyectil"
    by (simp only: jugador_con_proyectil sesion_con_proyectil_campos)
  have b: "proyectiles (jugador sesion_con_proyectil) = [proyectil_ejemplo]"
    by (simp add: sesion_con_proyectil_campos)
  have c: "verificar_desactivacion proyectil_ejemplo = proyectil_ejemplo"
    by (simp add: verificar_desactivacion_def proyectil_ejemplo_def pantalla_ejemplo_def
          Vector2D_init_def Let_def)
  let ?s' = "sesion_con_proyectil
            \<lparr>tiempo_desde_ultimo_dano := 1 / 10,
              memoria := (\<lambda>_. enemigo_ejemplo)
                 (0 := enemigo_ejemplo\<lparr>posicion := Vector2D_init 392 156\<rparr>),
              jugador := jugador_ejemplo
                 \<lparr>proyectiles := [proyectil_ejemplo\<lparr>activo := False\<rparr>]\<rparr>,
              tiempo_enemigo := 1 / 10\<rparr>"
  have d: "ControlJuego_actualizar sesion_con_proyectil (1 / 10) sorteo_ejemplo sorteo_ejemplo
      = Inr ?s'" by (rule sesion_con_proyectil_frame)
  have e: "proyectiles (jugador ?s') = [proyectil_ejemplo\<lparr>activo := False\<rparr>]"
    "puntos ?s' = puntos sesion_con_proyectil" by simp_all
  have f: "\<forall>r. \<not> colision proyectil_ejemplo (memoria sesion_con_proyectil r)"
    by (simp add: sesion_con_proyectil_campos proyectil_lejos_1)
  have g: "\<forall>r. \<not> colision proyectil_ejemplo (memoria ?s' r)"
    by (simp add: proyectil_lejos_1 proyectil_lejos_2)
  from d e f g have "\<exists>s'. ControlJuego_actualizar sesion_con_proyectil (1 / 10) sorteo_ejemplo
      sorteo_ejemplo = Inr s'
          \<and> proyectiles (jugador s') = [proyectil_ejemplo\<lparr>activo := False\<rparr>]
          \<and> puntos s' = puntos sesion_con_proyectil
          \<and> (\<forall>r. \<not> colision proyectil_ejemplo (memoria sesion_con_proyectil r))
          \<and> (\<forall>r. \<not> colision proyectil_ejemplo (memoria s' r))" by blast
  with a b c show ?thesis by blast
qed

section \<open>The direction of a projectile\<close>
















end
